theory Spec2Isabelle
  imports Complex_Main
begin

section \<open>Numbers and vectors\<close>

text \<open>
  The simulator is a TypeScript program (\<^verbatim>\<open>src/main.ts\<close>).  Its numbers are modelled
  as mathematical reals: rounding, infinities and NaN of the double type are outside this
  model, and every statement below is about the program with exact arithmetic.  Integer
  valued counters (the kilometre index of the race) are \<^typ>\<open>int\<close>.

  The vector classes come from the three.js library.  Only the methods the physics code
  calls are modelled, with the library's meaning: \<^verbatim>\<open>normalize\<close> divides by the length,
  or by 1 when the length is 0; \<^verbatim>\<open>divideScalar s\<close> multiplies by \<^verbatim>\<open>1 / s\<close>;
  \<^verbatim>\<open>MathUtils.clamp v lo hi\<close> is \<^verbatim>\<open>max lo (min hi v)\<close>.
\<close>

record Vector2 =
  ux :: real
  uy :: real

record Vector3 =
  vx :: real
  vy :: real
  vz :: real

definition V2 :: "real \<Rightarrow> real \<Rightarrow> Vector2" where
  "V2 a b = \<lparr>ux = a, uy = b\<rparr>"

definition V3 :: "real \<Rightarrow> real \<Rightarrow> real \<Rightarrow> Vector3" where
  "V3 a b c = \<lparr>vx = a, vy = b, vz = c\<rparr>"

definition vlength :: "Vector3 \<Rightarrow> real" where
  "vlength v = sqrt (vx v * vx v + vy v * vy v + vz v * vz v)"

definition multiplyScalar :: "Vector3 \<Rightarrow> real \<Rightarrow> Vector3" where
  "multiplyScalar v s = V3 (vx v * s) (vy v * s) (vz v * s)"

definition divideScalar :: "Vector3 \<Rightarrow> real \<Rightarrow> Vector3" where
  "divideScalar v s = multiplyScalar v (1 / s)"

definition normalize :: "Vector3 \<Rightarrow> Vector3" where
  "normalize v = divideScalar v (if vlength v = 0 then 1 else vlength v)"

definition addScaledVector :: "Vector3 \<Rightarrow> Vector3 \<Rightarrow> real \<Rightarrow> Vector3" where
  "addScaledVector v u s = V3 (vx v + vx u * s) (vy v + vy u * s) (vz v + vz u * s)"

definition vadd :: "Vector3 \<Rightarrow> Vector3 \<Rightarrow> Vector3" where
  "vadd v u = V3 (vx v + vx u) (vy v + vy u) (vz v + vz u)"

definition dot :: "Vector3 \<Rightarrow> Vector3 \<Rightarrow> real" where
  "dot v u = vx v * vx u + vy v * vy u + vz v * vz u"

definition crossVectors :: "Vector3 \<Rightarrow> Vector3 \<Rightarrow> Vector3" where
  "crossVectors a b =
     V3 (vy a * vz b - vz a * vy b) (vz a * vx b - vx a * vz b) (vx a * vy b - vy a * vx b)"

definition clamp :: "real \<Rightarrow> real \<Rightarrow> real \<Rightarrow> real" where
  "clamp v lo hi = max lo (min hi v)"

definition smoothstep :: "real \<Rightarrow> real \<Rightarrow> real \<Rightarrow> real" where
  "smoothstep edge0 edge1 x =
     (let t = max 0 (min 1 ((x - edge0) / (edge1 - edge0))) in t * t * (3 - 2 * t))"

definition headingToDir :: "real \<Rightarrow> Vector3" where
  "headingToDir h = V3 (sin h) 0 (cos h)"


section \<open>The wave field\<close>

text \<open>
  \<^verbatim>\<open>waveConfig\<close>: the four Gerstner components.  The field \<^verbatim>\<open>speed\<close> of a component
  is named \<open>waveSpeed\<close> here, since the rider state has a field \<open>speed\<close> too.
\<close>

record Wave =
  dir :: Vector2
  steepness :: real
  wavelength :: real
  waveSpeed :: real

definition waveConfig :: "Wave list" where
  "waveConfig =
     [\<lparr>dir = V2 0.2 0.9, steepness = 0.15, wavelength = 40, waveSpeed = 1.2\<rparr>,
      \<lparr>dir = V2 (- 0.1) 0.95, steepness = 0.1, wavelength = 25, waveSpeed = 1.1\<rparr>,
      \<lparr>dir = V2 0.3 0.8, steepness = 0.08, wavelength = 15, waveSpeed = 1.3\<rparr>,
      \<lparr>dir = V2 (- 0.2) 0.9, steepness = 0.05, wavelength = 8, waveSpeed = 1.5\<rparr>]"

text \<open>What \<^verbatim>\<open>getWaterDisplacement\<close> returns: \<^verbatim>\<open>{ position, normal }\<close>.\<close>

record SurfaceInfo =
  infoPosition :: Vector3
  infoNormal :: Vector3

text \<open>
  One pass of the loop body of \<^verbatim>\<open>getWaterDisplacement\<close> (main.ts 620--639) on the three
  accumulators \<^verbatim>\<open>p\<close>, \<^verbatim>\<open>tangent\<close>, \<^verbatim>\<open>binormal\<close>.
\<close>

definition displaceBy ::
  "real \<Rightarrow> real \<Rightarrow> real \<Rightarrow> real \<Rightarrow> Vector3 \<times> Vector3 \<times> Vector3 \<Rightarrow> Wave
     \<Rightarrow> Vector3 \<times> Vector3 \<times> Vector3" where
  "displaceBy x z time windSpeed acc w =
     (let p = fst acc; tangent = fst (snd acc); binormal = snd (snd acc);
          k = 2 * pi / wavelength w;
          c = sqrt (9.8 / k) * waveSpeed w * windSpeed;
          d = ux (dir w) * x + uy (dir w) * z;
          f = k * (d - c * time);
          effectiveSteepness = steepness w * windSpeed * windSpeed;
          a = effectiveSteepness / k
      in (V3 (vx p + ux (dir w) * a * cos f)
             (vy p + a * sin f)
             (vz p + uy (dir w) * a * cos f),
          V3 (vx tangent - ux (dir w) * ux (dir w) * effectiveSteepness * sin f)
             (vy tangent + ux (dir w) * effectiveSteepness * cos f)
             (vz tangent - ux (dir w) * uy (dir w) * effectiveSteepness * sin f),
          V3 (vx binormal - ux (dir w) * uy (dir w) * effectiveSteepness * sin f)
             (vy binormal + uy (dir w) * effectiveSteepness * cos f)
             (vz binormal - uy (dir w) * uy (dir w) * effectiveSteepness * sin f)))"

definition getWaterDisplacement :: "real \<Rightarrow> real \<Rightarrow> real \<Rightarrow> real \<Rightarrow> SurfaceInfo" where
  "getWaterDisplacement x z time windSpeed =
     (let acc = foldl (displaceBy x z time windSpeed) (V3 x 0 z, V3 1 0 0, V3 0 0 1) waveConfig;
          p = fst acc; tangent = fst (snd acc); binormal = snd (snd acc);
          normal = normalize (crossVectors binormal tangent)
      in \<lparr>infoPosition = p, infoNormal = normal\<rparr>)"

text \<open>\<^verbatim>\<open>getWaterHeightFast\<close> (main.ts 1142--1153): the loop body, then the loop.\<close>

definition heightBy :: "real \<Rightarrow> real \<Rightarrow> real \<Rightarrow> real \<Rightarrow> real \<Rightarrow> Wave \<Rightarrow> real" where
  "heightBy x z time windSpeed y w =
     (let k = 2 * pi / wavelength w;
          c = sqrt (9.8 / k) * waveSpeed w * windSpeed;
          d = ux (dir w) * x + uy (dir w) * z;
          f = k * (d - c * time);
          eSteep = steepness w * windSpeed * windSpeed
      in y + (eSteep / k) * sin f)"

definition getWaterHeightFast :: "real \<Rightarrow> real \<Rightarrow> real \<Rightarrow> real \<Rightarrow> real" where
  "getWaterHeightFast x z time windSpeed = foldl (heightBy x z time windSpeed) 0 waveConfig"

text \<open>
  The height as the specification words it: the sum over the components of
  \<open>(steepness \<cdot> windSpeed\<^sup>2 / k) \<cdot> sin (k \<cdot> (d \<cdot> (x, z) - c \<cdot> t))\<close> with \<open>k = 2\<pi> / \<lambda>\<close> and
  \<open>c = sqrt (9.8 / k) \<cdot> speedMultiplier \<cdot> windSpeed\<close>.
\<close>

definition wavenumber :: "Wave \<Rightarrow> real" where
  "wavenumber w = 2 * pi / wavelength w"

definition phaseSpeed :: "real \<Rightarrow> Wave \<Rightarrow> real" where
  "phaseSpeed windSpeed w = sqrt (9.8 / wavenumber w) * waveSpeed w * windSpeed"

definition heightTermSpec :: "real \<Rightarrow> real \<Rightarrow> real \<Rightarrow> real \<Rightarrow> Wave \<Rightarrow> real" where
  "heightTermSpec x z t windSpeed w =
     (steepness w * windSpeed\<^sup>2 / wavenumber w)
       * sin (wavenumber w * ((ux (dir w) * x + uy (dir w) * z) - phaseSpeed windSpeed w * t))"

definition heightOnlySpec :: "real \<Rightarrow> real \<Rightarrow> real \<Rightarrow> real \<Rightarrow> real" where
  "heightOnlySpec x z t windSpeed = sum_list (map (heightTermSpec x z t windSpeed) waveConfig)"


section \<open>The surface solver\<close>

text \<open>
  \<^verbatim>\<open>getSurfaceInfoAtWorldPos\<close> (main.ts 645--658).  The state of its loop is the test
  point and the last sample; the model adds \<open>evals\<close>, the list of the points at which
  \<^verbatim>\<open>getWaterDisplacement\<close> has been called so far, oldest first, so that the number
  and the arguments of the calls can be stated.
\<close>

record SolverState =
  testX :: real
  testZ :: real
  info :: SurfaceInfo
  evals :: "(real \<times> real) list"

definition solverStart :: "real \<Rightarrow> real \<Rightarrow> real \<Rightarrow> real \<Rightarrow> SolverState" where
  "solverStart worldX worldZ time windSpeed =
     \<lparr>testX = worldX, testZ = worldZ,
      info = getWaterDisplacement worldX worldZ time windSpeed,
      evals = [(worldX, worldZ)]\<rparr>"

definition solverBody :: "real \<Rightarrow> real \<Rightarrow> real \<Rightarrow> real \<Rightarrow> SolverState \<Rightarrow> SolverState" where
  "solverBody worldX worldZ time windSpeed s =
     (let errX = worldX - vx (infoPosition (info s));
          errZ = worldZ - vz (infoPosition (info s));
          tx = testX s + errX;
          tz = testZ s + errZ
      in \<lparr>testX = tx, testZ = tz,
          info = getWaterDisplacement tx tz time windSpeed,
          evals = evals s @ [(tx, tz)]\<rparr>)"

text \<open>\<^verbatim>\<open>for (let i = 0; i < 3; i++)\<close>\<close>

function solverLoop ::
  "real \<Rightarrow> real \<Rightarrow> real \<Rightarrow> real \<Rightarrow> nat \<Rightarrow> SolverState \<Rightarrow> SolverState" where
  "solverLoop worldX worldZ time windSpeed i s =
     (if i < 3
      then solverLoop worldX worldZ time windSpeed (i + 1) (solverBody worldX worldZ time windSpeed s)
      else s)"
  by pat_completeness auto
termination
  by (relation "measure (\<lambda>(worldX, worldZ, time, windSpeed, i, s). 3 - i)") auto

declare solverLoop.simps [simp del]

definition solverRun :: "real \<Rightarrow> real \<Rightarrow> real \<Rightarrow> real \<Rightarrow> SolverState" where
  "solverRun worldX worldZ time windSpeed =
     solverLoop worldX worldZ time windSpeed 0 (solverStart worldX worldZ time windSpeed)"

definition getSurfaceInfoAtWorldPos :: "real \<Rightarrow> real \<Rightarrow> real \<Rightarrow> real \<Rightarrow> SurfaceInfo" where
  "getSurfaceInfoAtWorldPos worldX worldZ time windSpeed =
     info (solverRun worldX worldZ time windSpeed)"

text \<open>
  The words of the specification for one correction: the test point is shifted by the
  residual between the world target and the horizontal part of the displaced position
  sampled at the test point.
\<close>

definition shiftByResidual ::
  "real \<Rightarrow> real \<Rightarrow> real \<Rightarrow> real \<Rightarrow> real \<times> real \<Rightarrow> real \<times> real" where
  "shiftByResidual worldX worldZ time windSpeed pt =
     (fst pt + (worldX - vx (infoPosition (getWaterDisplacement (fst pt) (snd pt) time windSpeed))),
      snd pt + (worldZ - vz (infoPosition (getWaterDisplacement (fst pt) (snd pt) time windSpeed))))"


section \<open>Configuration, rider state and inputs\<close>

record FoilConfig =
  foilName :: string
  wingSpan :: real
  wingArea :: real
  chord :: real
  aspectRatio :: real
  stallSpeed :: real
  maxLiftCoeff :: real
  baseDragCoeff :: real
  turnRateMax :: real

text \<open>\<^verbatim>\<open>FOIL_PRESETS\<close>; \<^verbatim>\<open>activeFoil\<close> starts as a copy of the first.\<close>

definition highAspectRace :: FoilConfig where
  "highAspectRace =
     \<lparr>foilName = ''High Aspect Race'', wingSpan = 1.0, wingArea = 0.08, chord = 0.08,
      aspectRatio = 12.5, stallSpeed = 7.0, maxLiftCoeff = 0.5, baseDragCoeff = 0.01,
      turnRateMax = 2\<rparr>"

definition midAspectCruise :: FoilConfig where
  "midAspectCruise =
     \<lparr>foilName = ''Mid Aspect Cruise'', wingSpan = 1.2, wingArea = 0.234, chord = 0.195,
      aspectRatio = 6.15, stallSpeed = 4.0, maxLiftCoeff = 0.5, baseDragCoeff = 0.012,
      turnRateMax = 0.6\<rparr>"

definition SPAWN_POINT :: Vector3 where "SPAWN_POINT = V3 0 0 (- 800)"
definition RACE_LENGTH_KM :: int where "RACE_LENGTH_KM = 1"
definition RACE_START_Z :: real where "RACE_START_Z = vz SPAWN_POINT"

definition GRAVITY :: real where "GRAVITY = 9.81"
definition RHO_WATER :: real where "RHO_WATER = 1025"
definition RIDER_MASS :: real where "RIDER_MASS = 80"
definition MAST_LENGTH :: real where "MAST_LENGTH = 0.8"
definition MAST_DRAG_AREA :: real where "MAST_DRAG_AREA = 0.0015"
definition PUMP_IMPULSE :: real where "PUMP_IMPULSE = 2.5"
definition PUMP_COST :: real where "PUMP_COST = 20"
definition PUMP_COOLDOWN :: real where "PUMP_COOLDOWN = 0.35"
definition ENERGY_REGEN :: real where "ENERGY_REGEN = 5"
definition MAX_ROLL :: real where "MAX_ROLL = pi / 6"
definition MAX_PITCH :: real where "MAX_PITCH = pi / 36"
definition ROLL_SPRING :: real where "ROLL_SPRING = 6.0"
definition ROLL_DAMPING :: real where "ROLL_DAMPING = 3.0"
definition WAVE_TORQUE_GAIN :: real where "WAVE_TORQUE_GAIN = 2.0"
definition HEIGHT_SPRING :: real where "HEIGHT_SPRING = 8.0"
definition HEIGHT_DAMPING :: real where "HEIGHT_DAMPING = 8.0"
definition WAVE_ENERGY_MULT :: real where "WAVE_ENERGY_MULT = 2.5"
definition LATERAL_RESISTANCE :: real where "LATERAL_RESISTANCE = 1.0"

record FoilState =
  position :: Vector3
  velocity :: Vector3
  heading :: real
  pitch :: real
  roll :: real
  rollRate :: real
  rideHeight :: real
  rideHeightVel :: real
  onFoil :: bool
  energy :: real
  speed :: real
  lastPumpTime :: real
  distanceTravelled :: real

text \<open>The initial value of \<^verbatim>\<open>foilState\<close>, which \<^verbatim>\<open>resetFoilState\<close> writes again.\<close>

definition spawnFoilState :: FoilState where
  "spawnFoilState =
     \<lparr>position = SPAWN_POINT, velocity = V3 0 0 0, heading = 0, pitch = 0, roll = 0,
      rollRate = 0, rideHeight = 0.35, rideHeightVel = 0, onFoil = True, energy = 100,
      speed = 0, lastPumpTime = - 10, distanceTravelled = 0\<rparr>"

datatype GameState = Starting | Riding | Crashed

text \<open>
  \<^verbatim>\<open>RaceData\<close>.  The flash text is the string \<^verbatim>\<open>`KM ${k}\n${fmtTime(split)}`\<close>; the
  model keeps the two values it is formatted from, and \<open>None\<close> for the empty string.
\<close>

record RaceData =
  active :: bool
  finished :: bool
  startTime :: real
  kmSplitTimes :: "real list"
  lastKmReached :: int
  totalElapsed :: real
  splitFlashText :: "(int \<times> real) option"
  splitFlashTimer :: real

definition resetRace :: RaceData where
  "resetRace =
     \<lparr>active = False, finished = False, startTime = 0, kmSplitTimes = [], lastKmReached = 0,
      totalElapsed = 0, splitFlashText = None, splitFlashTimer = 0\<rparr>"

definition startRace :: "real \<Rightarrow> RaceData" where
  "startRace clockTime =
     \<lparr>active = True, finished = False, startTime = clockTime, kmSplitTimes = [],
      lastKmReached = 0, totalElapsed = 0, splitFlashText = None, splitFlashTimer = 0\<rparr>"

record Input =
  left :: bool
  right :: bool
  up :: bool
  down :: bool
  pump :: bool

text \<open>
  The module's mutable globals, gathered in one record: \<^verbatim>\<open>foilState\<close>,
  \<^verbatim>\<open>gameState\<close>, \<^verbatim>\<open>input\<close>, \<^verbatim>\<open>activeFoil\<close>, \<^verbatim>\<open>PARAMS.windSpeed\<close> and
  \<^verbatim>\<open>race\<close>.  Two counters stand for the calls into the presentation layer:
  \<open>pumpAnimTriggers\<close> counts the calls of \<^verbatim>\<open>triggerPumpAnim\<close>, \<open>raceResultsShown\<close>
  those of \<^verbatim>\<open>showRaceResults\<close>.  Rendering, camera, wake and HUD state are not modelled;
  the physics and the race logic never read them.
\<close>

record World =
  foilState :: FoilState
  gameState :: GameState
  input :: Input
  activeFoil :: FoilConfig
  paramsWindSpeed :: real
  race :: RaceData
  pumpAnimTriggers :: nat
  raceResultsShown :: nat

definition initialWorld :: World where
  "initialWorld =
     \<lparr>foilState = spawnFoilState, gameState = Starting,
      input = \<lparr>left = False, right = False, up = False, down = False, pump = False\<rparr>,
      activeFoil = highAspectRace, paramsWindSpeed = 1.18, race = resetRace,
      pumpAnimTriggers = 0, raceResultsShown = 0\<rparr>"

text \<open>
  \<^verbatim>\<open>resetFoilState\<close> (main.ts 256--279) and \<^verbatim>\<open>launchFoil\<close> (281--288).  The reset
  also clears presentation state, which is not modelled.
\<close>

definition resetFoilState :: "World \<Rightarrow> World" where
  "resetFoilState w = w\<lparr>foilState := spawnFoilState, gameState := Starting, race := resetRace\<rparr>"

definition launchFoil :: "World \<Rightarrow> World" where
  "launchFoil w =
     (let initialSpeed = stallSpeed (activeFoil w) * 1.5;
          d = headingToDir (heading (foilState w))
      in w\<lparr>foilState := (foilState w)\<lparr>velocity := multiplyScalar d initialSpeed,
                                         rideHeight := 0.35, onFoil := True\<rparr>,
           gameState := Riding\<rparr>)"


section \<open>Sampling the wave across the wing\<close>

record WaveSample =
  center :: SurfaceInfo
  leftTip :: SurfaceInfo
  rightTip :: SurfaceInfo
  gradient :: Vector2

text \<open>\<^verbatim>\<open>sampleWaveAtFoilPoints\<close> (main.ts 662--687).\<close>

definition sampleWaveAtFoilPoints :: "FoilState \<Rightarrow> FoilConfig \<Rightarrow> real \<Rightarrow> real \<Rightarrow> WaveSample" where
  "sampleWaveAtFoilPoints fs foil time windSpeed =
     (let d = headingToDir (heading fs);
          rightV = V3 (vz d) 0 (- vx d);
          halfSpan = wingSpan foil / 2;
          cx = vx (position fs);
          cz = vz (position fs);
          c = getSurfaceInfoAtWorldPos cx cz time windSpeed;
          l = getSurfaceInfoAtWorldPos (cx - vx rightV * halfSpan) (cz - vz rightV * halfSpan)
                time windSpeed;
          r = getSurfaceInfoAtWorldPos (cx + vx rightV * halfSpan) (cz + vz rightV * halfSpan)
                time windSpeed;
          n = infoNormal c;
          ny = max (vy n) 0.01
      in \<lparr>center = c, leftTip = l, rightTip = r, gradient = V2 (- vx n / ny) (- vz n / ny)\<rparr>)"


section \<open>The physics step\<close>

text \<open>
  \<^verbatim>\<open>updatePhysics\<close> (main.ts 1564--1702) is one long function.  Each of its commented
  blocks is a definition here, taking the locals it reads as arguments; \<open>physicsBody\<close>
  chains the blocks in the order of the source, and \<open>updatePhysics\<close> adds the guard on
  \<^verbatim>\<open>gameState\<close>, the clamp of \<^verbatim>\<open>dt\<close> and the crash check.
\<close>

text \<open>Target roll and pitch from the held keys (1573--1579): a later assignment wins.\<close>

definition targetRollOf :: "Input \<Rightarrow> real" where
  "targetRollOf i =
     (let targetRoll = 0;
          targetRoll = (if left i then MAX_ROLL else targetRoll);
          targetRoll = (if right i then - MAX_ROLL else targetRoll)
      in targetRoll)"

definition targetPitchOf :: "Input \<Rightarrow> real" where
  "targetPitchOf i =
     (let targetPitch = 0;
          targetPitch = (if up i then MAX_PITCH else targetPitch);
          targetPitch = (if down i then - MAX_PITCH else targetPitch)
      in targetPitch)"

text \<open>Roll spring-damper with wave torque, then the pitch spring (1588--1596).\<close>

definition rollPitch :: "real \<Rightarrow> real \<Rightarrow> real \<Rightarrow> real \<Rightarrow> FoilState \<Rightarrow> FoilState" where
  "rollPitch dt targetRoll targetPitch waveTorque fs =
     (let rollError = targetRoll - roll fs;
          rollAccel = rollError * ROLL_SPRING - rollRate fs * ROLL_DAMPING + waveTorque;
          rollRate1 = rollRate fs + rollAccel * dt;
          roll1 = roll fs + rollRate1 * dt;
          roll2 = clamp roll1 (- MAX_ROLL * 1.2) (MAX_ROLL * 1.2);
          pitch1 = pitch fs + (targetPitch - pitch fs) * 5.0 * dt
      in fs\<lparr>rollRate := rollRate1, roll := roll2, pitch := pitch1\<rparr>)"

text \<open>Lift (1598--1601) and drag (1603--1613).\<close>

definition liftCoeff :: "FoilConfig \<Rightarrow> real \<Rightarrow> real" where
  "liftCoeff foil spd =
     (let clFactor = smoothstep (stallSpeed foil * 0.7) (stallSpeed foil * 1.3) spd
      in maxLiftCoeff foil * clFactor)"

definition liftMagnitude :: "FoilConfig \<Rightarrow> real \<Rightarrow> real" where
  "liftMagnitude foil spd = 0.5 * RHO_WATER * spd * spd * liftCoeff foil spd * wingArea foil"

definition dragMagnitude :: "FoilConfig \<Rightarrow> real \<Rightarrow> real \<Rightarrow> real" where
  "dragMagnitude foil spd height =
     (let CL = liftCoeff foil spd;
          inducedCD = (CL * CL) / (pi * aspectRatio foil * 0.85);
          totalCD = baseDragCoeff foil + inducedCD;
          dragMag = 0.5 * RHO_WATER * spd * spd * totalCD * wingArea foil;
          dragMag = dragMag + 0.5 * RHO_WATER * spd * spd * 0.8 * MAST_DRAG_AREA;
          dragMag = (if height < 0.1
                     then (let wetFactor = 1.0 - height / 0.1
                           in dragMag + wetFactor * 0.5 * RHO_WATER * spd * spd * 0.3 * 0.05)
                     else dragMag)
      in dragMag)"

text \<open>The horizontal force: wave slope, and drag against the velocity (1615--1626).\<close>

definition netForce :: "Vector2 \<Rightarrow> Vector3 \<Rightarrow> real \<Rightarrow> real \<Rightarrow> Vector3" where
  "netForce grad vel spd dragMag =
     (let force = V3 0 0 0;
          force = V3 (vx force + RIDER_MASS * GRAVITY * (- ux grad) * WAVE_ENERGY_MULT)
                     (vy force)
                     (vz force + RIDER_MASS * GRAVITY * (- uy grad) * WAVE_ENERGY_MULT)
      in if spd > 0.01
         then addScaledVector force (normalize vel) (- dragMag)
         else force)"

text \<open>Turning from roll (1628--1634).\<close>

definition turning :: "real \<Rightarrow> FoilConfig \<Rightarrow> real \<Rightarrow> real \<Rightarrow> FoilState \<Rightarrow> FoilState" where
  "turning dt foil liftMag spd fs =
     (if \<bar>roll fs\<bar> > 0.01 \<and> spd > 1.0
      then (let centripetal = liftMag * sin (roll fs);
                headingRate = centripetal / (RIDER_MASS * max spd 2.0);
                headingRate = clamp headingRate (- turnRateMax foil) (turnRateMax foil)
            in fs\<lparr>heading := heading fs + headingRate * dt\<rparr>)
      else fs)"

text \<open>
  The pump (1636--1646).  \<open>pumpFires\<close> is the condition of the \<^verbatim>\<open>if\<close>; the intent
  \<^verbatim>\<open>input.pump\<close> is cleared after the \<^verbatim>\<open>if\<close>, on both paths.
\<close>

definition pumpFires :: "real \<Rightarrow> World \<Rightarrow> bool" where
  "pumpFires time w \<longleftrightarrow>
     pump (input w) \<and> energy (foilState w) \<ge> PUMP_COST
       \<and> (time - lastPumpTime (foilState w)) > PUMP_COOLDOWN"

definition pumpStep :: "real \<Rightarrow> World \<Rightarrow> World" where
  "pumpStep time w =
     (let w1 =
        (if pumpFires time w
         then (let fs = foilState w;
                   pumpDir = headingToDir (heading fs)
               in w\<lparr>foilState := fs\<lparr>velocity := addScaledVector (velocity fs) pumpDir PUMP_IMPULSE,
                                      energy := energy fs - PUMP_COST,
                                      lastPumpTime := time,
                                      rideHeight := min (rideHeight fs + 0.05) MAST_LENGTH\<rparr>,
                    pumpAnimTriggers := Suc (pumpAnimTriggers w),
                    input := (input w)\<lparr>pump := False\<rparr>\<rparr>)
         else w)
      in w1\<lparr>input := (input w1)\<lparr>pump := False\<rparr>\<rparr>)"

text \<open>Energy regeneration (1648--1649).\<close>

definition energyRegen :: "real \<Rightarrow> FoilState \<Rightarrow> FoilState" where
  "energyRegen dt fs = fs\<lparr>energy := min 100 (energy fs + ENERGY_REGEN * dt)\<rparr>"

text \<open>Velocity integration (1651--1654): the vertical component is zeroed.\<close>

definition integrateVelocity :: "real \<Rightarrow> Vector3 \<Rightarrow> FoilState \<Rightarrow> FoilState" where
  "integrateVelocity dt force fs =
     (let accel = divideScalar force RIDER_MASS;
          v = addScaledVector (velocity fs) accel dt
      in fs\<lparr>velocity := v\<lparr>vy := 0\<rparr>\<rparr>)"

text \<open>Lateral slip decay (1656--1661).\<close>

definition lateralSlip :: "real \<Rightarrow> FoilState \<Rightarrow> FoilState" where
  "lateralSlip dt fs =
     (let d = headingToDir (heading fs);
          fwdSpeed = dot (velocity fs) d;
          lateral = addScaledVector (velocity fs) d (- fwdSpeed);
          lateral = multiplyScalar lateral (exp (- LATERAL_RESISTANCE * dt))
      in fs\<lparr>velocity := vadd (multiplyScalar d fwdSpeed) lateral\<rparr>)"

text \<open>Position integration (1663--1665); \<open>spd\<close> is the speed read at the top of the step.\<close>

definition integratePosition :: "real \<Rightarrow> real \<Rightarrow> FoilState \<Rightarrow> FoilState" where
  "integratePosition dt spd fs =
     fs\<lparr>position := addScaledVector (position fs) (velocity fs) dt,
        distanceTravelled := distanceTravelled fs + spd * dt\<rparr>"

text \<open>Ride height spring-damper and its clamp (1667--1685).\<close>

definition rideHeightStep :: "real \<Rightarrow> real \<Rightarrow> FoilState \<Rightarrow> FoilState" where
  "rideHeightStep dt liftMag fs =
     (let liftRatio = liftMag / (RIDER_MASS * GRAVITY);
          targetHeight = clamp ((liftRatio - 0.8) / 1.2 * MAST_LENGTH * 0.8) 0 MAST_LENGTH;
          pitchBias = pitch fs * 0.3;
          effectiveTarget = clamp (targetHeight + pitchBias) 0 MAST_LENGTH;
          heightError = effectiveTarget - rideHeight fs;
          heightAccel = heightError * HEIGHT_SPRING - rideHeightVel fs * HEIGHT_DAMPING;
          rideHeightVel1 = rideHeightVel fs + heightAccel * dt;
          rideHeight1 = rideHeight fs + rideHeightVel1 * dt;
          minRideHeight = (if liftRatio > 1.0 then 0.12 else 0)
      in fs\<lparr>rideHeightVel := rideHeightVel1,
            rideHeight := max minRideHeight (min MAST_LENGTH rideHeight1)\<rparr>)"

text \<open>
  The riding step between the clamp of \<^verbatim>\<open>dt\<close> and the crash check, in three parts,
  \<open>dt\<close> being the clamped step.  \<open>prePump\<close> is the code before the pump block
  (1569--1634); beside the world it returns the locals \<^verbatim>\<open>speed\<close>, \<^verbatim>\<open>liftMag\<close> and
  \<^verbatim>\<open>force\<close>, which the later blocks read.  \<open>pumpStep\<close> above is the pump block.
  \<open>postPump\<close> is the code after it (1648--1687).
\<close>

definition prePump :: "real \<Rightarrow> real \<Rightarrow> World \<Rightarrow> World \<times> real \<times> real \<times> Vector3" where
  "prePump dt time w =
     (let foil = activeFoil w;
          spd = vlength (velocity (foilState w));
          fs1 = (foilState w)\<lparr>speed := spd\<rparr>;
          targetRoll = targetRollOf (input w);
          targetPitch = targetPitchOf (input w);
          wave = sampleWaveAtFoilPoints fs1 foil time (paramsWindSpeed w);
          heightDiff = vy (infoPosition (rightTip wave)) - vy (infoPosition (leftTip wave));
          waveTorque = (heightDiff / wingSpan foil) * WAVE_TORQUE_GAIN;
          fs2 = rollPitch dt targetRoll targetPitch waveTorque fs1;
          liftMag = liftMagnitude foil spd;
          dragMag = dragMagnitude foil spd (rideHeight fs2);
          force = netForce (gradient wave) (velocity fs2) spd dragMag;
          fs3 = turning dt foil liftMag spd fs2
      in (w\<lparr>foilState := fs3\<rparr>, spd, liftMag, force))"

definition postPump :: "real \<Rightarrow> real \<Rightarrow> real \<Rightarrow> Vector3 \<Rightarrow> World \<Rightarrow> World" where
  "postPump dt spd liftMag force w =
     (let fs5 = energyRegen dt (foilState w);
          fs6 = integrateVelocity dt force fs5;
          fs7 = lateralSlip dt fs6;
          fs8 = integratePosition dt spd fs7;
          fs9 = rideHeightStep dt liftMag fs8;
          fs10 = fs9\<lparr>speed := vlength (velocity fs9)\<rparr>
      in w\<lparr>foilState := fs10\<rparr>)"

definition physicsBody :: "real \<Rightarrow> real \<Rightarrow> World \<Rightarrow> World" where
  "physicsBody dt time w =
     (let pre = prePump dt time w;
          w3 = fst pre;
          spd = fst (snd pre);
          liftMag = fst (snd (snd pre));
          force = snd (snd (snd pre));
          w4 = pumpStep time w3
      in postPump dt spd liftMag force w4)"

text \<open>The crash check (1689--1701); \<open>foil\<close> is the profile read at the top of the step.\<close>

definition crashCheck :: "FoilConfig \<Rightarrow> World \<Rightarrow> World" where
  "crashCheck foil w =
     (if rideHeight (foilState w) \<le> 0.001
      then w\<lparr>foilState := (foilState w)\<lparr>rideHeight := 0, onFoil := False\<rparr>,
             gameState := Crashed\<rparr>
      else if rideHeight (foilState w) < 0.05 \<and> speed (foilState w) < stallSpeed foil
      then w\<lparr>foilState := (foilState w)\<lparr>rideHeight := 0, onFoil := False\<rparr>,
             gameState := Crashed\<rparr>
      else w)"

definition updatePhysics :: "real \<Rightarrow> real \<Rightarrow> World \<Rightarrow> World" where
  "updatePhysics dt time w =
     (if gameState w \<noteq> Riding then w
      else crashCheck (activeFoil w) (physicsBody (min dt (1 / 30)) time w))"


section \<open>The race tracker\<close>

text \<open>\<^verbatim>\<open>downwindDist\<close> (main.ts 81--83).\<close>

definition downwindDist :: "FoilState \<Rightarrow> real" where
  "downwindDist fs = max 0 (vz (position fs) - RACE_START_Z)"

text \<open>
  The body of the split loop of \<^verbatim>\<open>updateRace\<close> (1817--1822), and the loop
  \<^verbatim>\<open>for (let k = race.lastKmReached + 1; k <= Math.min(kmReached, RACE_LENGTH_KM); k++)\<close>
  with \<open>hi\<close> the bound, which the body does not change.
\<close>

definition splitBody :: "int \<Rightarrow> RaceData \<Rightarrow> RaceData" where
  "splitBody k r =
     (let splits = kmSplitTimes r @ [totalElapsed r];
          prev = (if length splits > 1 then splits ! (length splits - 2) else 0);
          split = totalElapsed r - prev
      in r\<lparr>kmSplitTimes := splits, splitFlashText := Some (k, split), splitFlashTimer := 3.0,
           lastKmReached := k\<rparr>)"

function recordSplits :: "int \<Rightarrow> int \<Rightarrow> RaceData \<Rightarrow> RaceData" where
  "recordSplits k hi r = (if k \<le> hi then recordSplits (k + 1) hi (splitBody k r) else r)"
  by pat_completeness auto
termination
  by (relation "measure (\<lambda>(k, hi, r). nat (hi + 1 - k))") auto

declare recordSplits.simps [simp del]

text \<open>
  \<^verbatim>\<open>while (race.kmSplitTimes.length < RACE_LENGTH_KM) race.kmSplitTimes.push(race.totalElapsed)\<close>
  (1835--1837), for a course of \<open>len\<close> kilometres.
\<close>

function backfillSplits :: "int \<Rightarrow> RaceData \<Rightarrow> RaceData" where
  "backfillSplits len r =
     (if int (length (kmSplitTimes r)) < len
      then backfillSplits len (r\<lparr>kmSplitTimes := kmSplitTimes r @ [totalElapsed r]\<rparr>)
      else r)"
  by pat_completeness auto
termination
  by (relation "measure (\<lambda>(len, r). nat (len - int (length (kmSplitTimes r))))") auto

declare backfillSplits.simps [simp del]

text \<open>
  \<^verbatim>\<open>updateRace\<close> (main.ts 1800--1845).  The source reads the course length from the
  constant \<^verbatim>\<open>RACE_LENGTH_KM\<close>, which its comment invites to adjust; \<open>updateRaceFor\<close>
  takes it as the argument \<open>len\<close>, and \<open>updateRace\<close> is the instance of the source.
\<close>

definition updateRaceFor :: "int \<Rightarrow> real \<Rightarrow> real \<Rightarrow> World \<Rightarrow> World" where
  "updateRaceFor len dt time w =
     (let w1 = (if gameState w = Riding \<and> \<not> active (race w) \<and> \<not> finished (race w)
                then w\<lparr>race := startRace time\<rparr> else w)
      in if \<not> active (race w1) then w1
         else
           (let r2 = (race w1)\<lparr>totalElapsed := time - startTime (race w1)\<rparr>;
                dwind = downwindDist (foilState w1);
                kmReached = \<lfloor>dwind / 1000\<rfloor>;
                r3 = recordSplits (lastKmReached r2 + 1) (min kmReached len) r2;
                r4 = (if splitFlashTimer r3 > 0
                      then r3\<lparr>splitFlashTimer := splitFlashTimer r3 - dt\<rparr> else r3);
                w5 = (if dwind \<ge> of_int len * 1000
                      then w1\<lparr>race := backfillSplits len
                                         (r4\<lparr>finished := True, active := False,
                                             totalElapsed := time - startTime r4,
                                             splitFlashTimer := 0\<rparr>),
                              raceResultsShown := Suc (raceResultsShown w1)\<rparr>
                      else w1\<lparr>race := r4\<rparr>)
            in if gameState w5 = Crashed
               then w5\<lparr>race := (race w5)\<lparr>active := False\<rparr>\<rparr>
               else w5))"

definition updateRace :: "real \<Rightarrow> real \<Rightarrow> World \<Rightarrow> World" where
  "updateRace dt time w = updateRaceFor RACE_LENGTH_KM dt time w"


text \<open>
  The invariant of the race data at simulation time \<open>T\<close>, for a course of \<open>len\<close>
  kilometres: the splits are sorted, none is later than the elapsed time at \<open>T\<close>, and
  there is one split for each kilometre counted by \<^verbatim>\<open>lastKmReached\<close>, which is at most
  \<open>len\<close>.
\<close>

definition raceOK :: "int \<Rightarrow> real \<Rightarrow> RaceData \<Rightarrow> bool" where
  "raceOK len T r \<longleftrightarrow>
     sorted (kmSplitTimes r)
     \<and> list_all (\<lambda>x. x \<le> T - startTime r) (kmSplitTimes r)
     \<and> int (length (kmSplitTimes r)) = lastKmReached r
     \<and> lastKmReached r \<le> len"


text \<open>
  A run of race updates.  Each call of the race update is recorded with its arguments and
  the world it is called on.  \<open>raceRun len r calls\<close> says that the calls follow each other
  on the same race data, starting from \<open>r\<close>: between two calls nothing else writes the
  race data.  \<open>raceAfter len r calls\<close> is the race data after the last call.
\<close>

record RaceCall =
  callDt :: real
  callTime :: real
  callWorld :: World

fun raceRun :: "int \<Rightarrow> RaceData \<Rightarrow> RaceCall list \<Rightarrow> bool" where
  "raceRun len r [] \<longleftrightarrow> True"
| "raceRun len r (c # cs) \<longleftrightarrow>
     race (callWorld c) = r
     \<and> raceRun len (race (updateRaceFor len (callDt c) (callTime c) (callWorld c))) cs"

fun raceAfter :: "int \<Rightarrow> RaceData \<Rightarrow> RaceCall list \<Rightarrow> RaceData" where
  "raceAfter len r [] = r"
| "raceAfter len r (c # cs) =
     raceAfter len (race (updateRaceFor len (callDt c) (callTime c) (callWorld c))) cs"

text \<open>The call would start a new race: riding, with the race neither active nor finished.\<close>

definition startsRace :: "RaceCall \<Rightarrow> bool" where
  "startsRace c \<longleftrightarrow>
     gameState (callWorld c) = Riding \<and> \<not> active (race (callWorld c))
     \<and> \<not> finished (race (callWorld c))"

definition callDist :: "RaceCall \<Rightarrow> real" where
  "callDist c = downwindDist (foilState (callWorld c))"


section \<open>Keys and frames\<close>

text \<open>
  The key handlers (main.ts 1525--1560): Space launches or sets the pump intent, R restarts
  after a crash, the arrows are held keys.  The camera toggle (C) changes no state of the
  model.  A frame of \<^verbatim>\<open>animate\<close> runs the physics step and then the race update
  (1867--1871); \<open>runFrames\<close> is the browser's loop: the key events that arrived, then the
  frame.
\<close>

datatype Key = ArrowLeft | ArrowRight | ArrowUp | ArrowDown | Space | KeyR | KeyC

datatype KeyEvent = KeyDown Key | KeyUp Key

fun handleKey :: "KeyEvent \<Rightarrow> World \<Rightarrow> World" where
  "handleKey (KeyDown ArrowLeft) w = w\<lparr>input := (input w)\<lparr>left := True\<rparr>\<rparr>"
| "handleKey (KeyDown ArrowRight) w = w\<lparr>input := (input w)\<lparr>right := True\<rparr>\<rparr>"
| "handleKey (KeyDown ArrowUp) w = w\<lparr>input := (input w)\<lparr>up := True\<rparr>\<rparr>"
| "handleKey (KeyDown ArrowDown) w = w\<lparr>input := (input w)\<lparr>down := True\<rparr>\<rparr>"
| "handleKey (KeyDown Space) w =
     (if gameState w = Starting then launchFoil w
      else if gameState w = Riding then w\<lparr>input := (input w)\<lparr>pump := True\<rparr>\<rparr>
      else w)"
| "handleKey (KeyDown KeyR) w = (if gameState w = Crashed then resetFoilState w else w)"
| "handleKey (KeyDown KeyC) w = w"
| "handleKey (KeyUp ArrowLeft) w = w\<lparr>input := (input w)\<lparr>left := False\<rparr>\<rparr>"
| "handleKey (KeyUp ArrowRight) w = w\<lparr>input := (input w)\<lparr>right := False\<rparr>\<rparr>"
| "handleKey (KeyUp ArrowUp) w = w\<lparr>input := (input w)\<lparr>up := False\<rparr>\<rparr>"
| "handleKey (KeyUp ArrowDown) w = w\<lparr>input := (input w)\<lparr>down := False\<rparr>\<rparr>"
| "handleKey (KeyUp k) w = w"

record Frame =
  frameKeys :: "KeyEvent list"
  frameDt :: real
  frameTime :: real

definition animateFor :: "int \<Rightarrow> real \<Rightarrow> real \<Rightarrow> World \<Rightarrow> World" where
  "animateFor len dt time w = updateRaceFor len dt time (updatePhysics dt time w)"

definition animate :: "real \<Rightarrow> real \<Rightarrow> World \<Rightarrow> World" where
  "animate dt time w = updateRace dt time (updatePhysics dt time w)"

definition runFrame :: "World \<Rightarrow> Frame \<Rightarrow> World" where
  "runFrame w fr = animate (frameDt fr) (frameTime fr) (foldl (\<lambda>v e. handleKey e v) w (frameKeys fr))"

definition runFrames :: "World \<Rightarrow> Frame list \<Rightarrow> World" where
  "runFrames w frs = foldl runFrame w frs"

text \<open>Repeated calls of the physics step alone, one per pair \<open>(dt, time)\<close>.\<close>

definition stepMany :: "World \<Rightarrow> (real \<times> real) list \<Rightarrow> World" where
  "stepMany w steps = foldl (\<lambda>v s. updatePhysics (fst s) (snd s) v) w steps"


section \<open>Wave field: the cheap height against the full sample\<close>

lemma displaceBy_height:
  "vy (fst (displaceBy x z time windSpeed acc w)) = heightBy x z time windSpeed (vy (fst acc)) w"
  by (simp add: displaceBy_def heightBy_def Let_def V3_def)

lemma foldl_displaceBy_height:
  "vy (fst (foldl (displaceBy x z time windSpeed) acc ws))
     = foldl (heightBy x z time windSpeed) (vy (fst acc)) ws"
proof (induction ws arbitrary: acc)
  case Nil
  show ?case by simp
next
  case (Cons w ws)
  show ?case by (simp add: Cons.IH displaceBy_height)
qed

lemma heightBy_spec:
  "heightBy x z time windSpeed y w = y + heightTermSpec x z time windSpeed w"
  by (simp add: heightBy_def heightTermSpec_def wavenumber_def phaseSpeed_def Let_def
      power2_eq_square)

lemma foldl_heightBy_sum:
  "foldl (heightBy x z time windSpeed) y ws
     = y + sum_list (map (heightTermSpec x z time windSpeed) ws)"
proof (induction ws arbitrary: y)
  case Nil
  show ?case by simp
next
  case (Cons w ws)
  have "foldl (heightBy x z time windSpeed) y (w # ws)
      = foldl (heightBy x z time windSpeed) (heightBy x z time windSpeed y w) ws"
    by simp
  also have "\<dots> = heightBy x z time windSpeed y w
      + sum_list (map (heightTermSpec x z time windSpeed) ws)"
    by (rule Cons.IH)
  also have "\<dots> = y + sum_list (map (heightTermSpec x z time windSpeed) (w # ws))"
    by (simp only: heightBy_spec list.map sum_list.Cons add.assoc)
  finally show ?case .
qed

text \<open>
  C9.  For every \<open>x\<close>, \<open>z\<close>, \<open>t\<close> and wind speed, \<^verbatim>\<open>getWaterHeightFast\<close> returns exactly
  the y component of the position of \<^verbatim>\<open>getWaterDisplacement\<close>, and both are the sum,
  over the four wave components, of the vertical term of the specification.
\<close>

theorem C9_height_fast_is_displacement_y:
  "getWaterHeightFast x z t windSpeed = vy (infoPosition (getWaterDisplacement x z t windSpeed))
   \<and> getWaterHeightFast x z t windSpeed = heightOnlySpec x z t windSpeed
   \<and> vy (infoPosition (getWaterDisplacement x z t windSpeed)) = heightOnlySpec x z t windSpeed
   \<and> length waveConfig = 4"
proof -
  have a: "vy (infoPosition (getWaterDisplacement x z t windSpeed))
             = getWaterHeightFast x z t windSpeed"
    by (simp add: getWaterDisplacement_def getWaterHeightFast_def Let_def
        foldl_displaceBy_height V3_def)
  have b: "getWaterHeightFast x z t windSpeed = heightOnlySpec x z t windSpeed"
    by (simp add: getWaterHeightFast_def heightOnlySpec_def foldl_heightBy_sum)
  have c: "length waveConfig = 4"
    by (simp add: waveConfig_def)
  from a b c show ?thesis by simp
qed


section \<open>Surface solver: four evaluations\<close>

lemma solverLoop_unroll:
  "solverLoop wx wz t ws 0 s
     = solverBody wx wz t ws (solverBody wx wz t ws (solverBody wx wz t ws s))"
proof -
  have three: "solverLoop wx wz t ws (Suc (Suc (Suc 0))) s' = s'" for s'
    by (subst solverLoop.simps) simp
  have two: "solverLoop wx wz t ws (Suc (Suc 0)) s' = solverBody wx wz t ws s'" for s'
    by (subst solverLoop.simps) (simp add: three)
  have one: "solverLoop wx wz t ws (Suc 0) s'
      = solverBody wx wz t ws (solverBody wx wz t ws s')" for s'
    by (subst solverLoop.simps) (simp add: two)
  show ?thesis
    by (subst solverLoop.simps) (simp add: one)
qed

lemma solverBody_evals:
  "evals (solverBody wx wz t ws s) = evals s @ [(testX (solverBody wx wz t ws s), testZ (solverBody wx wz t ws s))]"
  by (simp add: solverBody_def Let_def)

lemma solverBody_info:
  "info (solverBody wx wz t ws s)
     = getWaterDisplacement (testX (solverBody wx wz t ws s)) (testZ (solverBody wx wz t ws s)) t ws"
  by (simp add: solverBody_def Let_def)

lemma solverBody_shift:
  "info s = getWaterDisplacement (testX s) (testZ s) t ws \<Longrightarrow>
   (testX (solverBody wx wz t ws s), testZ (solverBody wx wz t ws s))
     = shiftByResidual wx wz t ws (testX s, testZ s)"
  by (simp add: solverBody_def shiftByResidual_def Let_def)

text \<open>
  C7.  The solver evaluates the wave displacement exactly four times: first at
  \<open>(worldX, worldZ)\<close>, then three times at the previous test point shifted by the
  residual, and it returns the sample of the fourth evaluation.  Nothing in the loop
  depends on the size of the residual.
\<close>

theorem C7_solver_four_evaluations:
  "length (evals (solverRun worldX worldZ t ws)) = 4
   \<and> evals (solverRun worldX worldZ t ws) ! 0 = (worldX, worldZ)
   \<and> evals (solverRun worldX worldZ t ws) ! 1
       = shiftByResidual worldX worldZ t ws (evals (solverRun worldX worldZ t ws) ! 0)
   \<and> evals (solverRun worldX worldZ t ws) ! 2
       = shiftByResidual worldX worldZ t ws (evals (solverRun worldX worldZ t ws) ! 1)
   \<and> evals (solverRun worldX worldZ t ws) ! 3
       = shiftByResidual worldX worldZ t ws (evals (solverRun worldX worldZ t ws) ! 2)
   \<and> getSurfaceInfoAtWorldPos worldX worldZ t ws
       = getWaterDisplacement (fst (evals (solverRun worldX worldZ t ws) ! 3))
           (snd (evals (solverRun worldX worldZ t ws) ! 3)) t ws"
proof -
  define s0 where "s0 = solverStart worldX worldZ t ws"
  define s1 where "s1 = solverBody worldX worldZ t ws s0"
  define s2 where "s2 = solverBody worldX worldZ t ws s1"
  define s3 where "s3 = solverBody worldX worldZ t ws s2"
  define q0 where "q0 = (testX s0, testZ s0)"
  define q1 where "q1 = (testX s1, testZ s1)"
  define q2 where "q2 = (testX s2, testZ s2)"
  define q3 where "q3 = (testX s3, testZ s3)"
  have run: "solverRun worldX worldZ t ws = s3"
    by (simp only: solverRun_def solverLoop_unroll s0_def s1_def s2_def s3_def)
  have e0: "evals s0 = [q0]"
    and i0: "info s0 = getWaterDisplacement (testX s0) (testZ s0) t ws"
    and p0: "q0 = (worldX, worldZ)"
    by (simp_all add: q0_def s0_def solverStart_def)
  have i1: "info s1 = getWaterDisplacement (testX s1) (testZ s1) t ws"
    and i2: "info s2 = getWaterDisplacement (testX s2) (testZ s2) t ws"
    and i3: "info s3 = getWaterDisplacement (testX s3) (testZ s3) t ws"
    unfolding s1_def s2_def s3_def by (rule solverBody_info)+
  have p1: "q1 = shiftByResidual worldX worldZ t ws q0"
    unfolding q1_def q0_def s1_def by (rule solverBody_shift [OF i0])
  have p2: "q2 = shiftByResidual worldX worldZ t ws q1"
    unfolding q2_def q1_def s2_def by (rule solverBody_shift [OF i1])
  have p3: "q3 = shiftByResidual worldX worldZ t ws q2"
    unfolding q3_def q2_def s3_def by (rule solverBody_shift [OF i2])
  have e1: "evals s1 = [q0, q1]"
    unfolding s1_def q1_def by (subst solverBody_evals) (simp add: e0)
  have e2: "evals s2 = [q0, q1, q2]"
    unfolding s2_def q2_def by (subst solverBody_evals) (simp add: e1)
  have e3: "evals s3 = [q0, q1, q2, q3]"
    unfolding s3_def q3_def by (subst solverBody_evals) (simp add: e2)
  have res: "getSurfaceInfoAtWorldPos worldX worldZ t ws
      = getWaterDisplacement (fst q3) (snd q3) t ws"
    by (simp add: getSurfaceInfoAtWorldPos_def run i3 q3_def)
  have n: "[q0, q1, q2, q3] ! 0 = q0" "[q0, q1, q2, q3] ! 1 = q1"
    "[q0, q1, q2, q3] ! 2 = q2" "[q0, q1, q2, q3] ! 3 = q3"
    "length [q0, q1, q2, q3] = 4"
    by simp_all
  show ?thesis
    unfolding run res e3 n using p0 p1 p2 p3 by (simp only: simp_thms)
qed


section \<open>Frame lemmas of the blocks of the physics step\<close>

lemma rollPitch_frame:
  "position (rollPitch dt a b c fs) = position fs"
  "velocity (rollPitch dt a b c fs) = velocity fs"
  "heading (rollPitch dt a b c fs) = heading fs"
  "rideHeight (rollPitch dt a b c fs) = rideHeight fs"
  "rideHeightVel (rollPitch dt a b c fs) = rideHeightVel fs"
  "onFoil (rollPitch dt a b c fs) = onFoil fs"
  "energy (rollPitch dt a b c fs) = energy fs"
  "speed (rollPitch dt a b c fs) = speed fs"
  "lastPumpTime (rollPitch dt a b c fs) = lastPumpTime fs"
  "distanceTravelled (rollPitch dt a b c fs) = distanceTravelled fs"
  by (simp_all add: rollPitch_def Let_def)

lemma turning_frame:
  "position (turning dt foil l s fs) = position fs"
  "velocity (turning dt foil l s fs) = velocity fs"
  "pitch (turning dt foil l s fs) = pitch fs"
  "roll (turning dt foil l s fs) = roll fs"
  "rollRate (turning dt foil l s fs) = rollRate fs"
  "rideHeight (turning dt foil l s fs) = rideHeight fs"
  "rideHeightVel (turning dt foil l s fs) = rideHeightVel fs"
  "onFoil (turning dt foil l s fs) = onFoil fs"
  "energy (turning dt foil l s fs) = energy fs"
  "speed (turning dt foil l s fs) = speed fs"
  "lastPumpTime (turning dt foil l s fs) = lastPumpTime fs"
  "distanceTravelled (turning dt foil l s fs) = distanceTravelled fs"
  by (simp_all add: turning_def Let_def)

lemma prePump_world:
  "gameState (fst (prePump dt t w)) = gameState w"
  "input (fst (prePump dt t w)) = input w"
  "activeFoil (fst (prePump dt t w)) = activeFoil w"
  "paramsWindSpeed (fst (prePump dt t w)) = paramsWindSpeed w"
  "race (fst (prePump dt t w)) = race w"
  "pumpAnimTriggers (fst (prePump dt t w)) = pumpAnimTriggers w"
  "raceResultsShown (fst (prePump dt t w)) = raceResultsShown w"
  by (simp_all add: prePump_def Let_def)

lemma prePump_foil:
  "position (foilState (fst (prePump dt t w))) = position (foilState w)"
  "velocity (foilState (fst (prePump dt t w))) = velocity (foilState w)"
  "rideHeight (foilState (fst (prePump dt t w))) = rideHeight (foilState w)"
  "rideHeightVel (foilState (fst (prePump dt t w))) = rideHeightVel (foilState w)"
  "onFoil (foilState (fst (prePump dt t w))) = onFoil (foilState w)"
  "energy (foilState (fst (prePump dt t w))) = energy (foilState w)"
  "lastPumpTime (foilState (fst (prePump dt t w))) = lastPumpTime (foilState w)"
  "distanceTravelled (foilState (fst (prePump dt t w))) = distanceTravelled (foilState w)"
  by (simp_all add: prePump_def Let_def rollPitch_frame turning_frame)

lemma prePump_locals:
  "fst (snd (prePump dt t w)) = vlength (velocity (foilState w))"
  "fst (snd (snd (prePump dt t w))) = liftMagnitude (activeFoil w) (vlength (velocity (foilState w)))"
  by (simp_all add: prePump_def Let_def)

lemma pumpStep_world:
  "gameState (pumpStep t w) = gameState w"
  "activeFoil (pumpStep t w) = activeFoil w"
  "paramsWindSpeed (pumpStep t w) = paramsWindSpeed w"
  "race (pumpStep t w) = race w"
  "raceResultsShown (pumpStep t w) = raceResultsShown w"
  "pump (input (pumpStep t w)) = False"
  "left (input (pumpStep t w)) = left (input w)"
  "right (input (pumpStep t w)) = right (input w)"
  "up (input (pumpStep t w)) = up (input w)"
  "down (input (pumpStep t w)) = down (input w)"
  "pumpAnimTriggers (pumpStep t w) = (if pumpFires t w then Suc (pumpAnimTriggers w) else pumpAnimTriggers w)"
  by (simp_all add: pumpStep_def Let_def)

lemma pumpStep_foil:
  "position (foilState (pumpStep t w)) = position (foilState w)"
  "heading (foilState (pumpStep t w)) = heading (foilState w)"
  "pitch (foilState (pumpStep t w)) = pitch (foilState w)"
  "roll (foilState (pumpStep t w)) = roll (foilState w)"
  "rollRate (foilState (pumpStep t w)) = rollRate (foilState w)"
  "rideHeightVel (foilState (pumpStep t w)) = rideHeightVel (foilState w)"
  "onFoil (foilState (pumpStep t w)) = onFoil (foilState w)"
  "speed (foilState (pumpStep t w)) = speed (foilState w)"
  "distanceTravelled (foilState (pumpStep t w)) = distanceTravelled (foilState w)"
  by (simp_all add: pumpStep_def Let_def)


lemma pumpStep_not_fired:
  "\<not> pumpFires t w \<Longrightarrow> foilState (pumpStep t w) = foilState w"
  by (simp add: pumpStep_def Let_def)

lemma postPump_world:
  "gameState (postPump dt s l f w) = gameState w"
  "input (postPump dt s l f w) = input w"
  "activeFoil (postPump dt s l f w) = activeFoil w"
  "paramsWindSpeed (postPump dt s l f w) = paramsWindSpeed w"
  "race (postPump dt s l f w) = race w"
  "pumpAnimTriggers (postPump dt s l f w) = pumpAnimTriggers w"
  "raceResultsShown (postPump dt s l f w) = raceResultsShown w"
  by (simp_all add: postPump_def Let_def)

lemma postPump_foil:
  "heading (foilState (postPump dt s l f w)) = heading (foilState w)"
  "pitch (foilState (postPump dt s l f w)) = pitch (foilState w)"
  "roll (foilState (postPump dt s l f w)) = roll (foilState w)"
  "rollRate (foilState (postPump dt s l f w)) = rollRate (foilState w)"
  "onFoil (foilState (postPump dt s l f w)) = onFoil (foilState w)"
  "lastPumpTime (foilState (postPump dt s l f w)) = lastPumpTime (foilState w)"
  "energy (foilState (postPump dt s l f w)) = min 100 (energy (foilState w) + ENERGY_REGEN * dt)"
  "distanceTravelled (foilState (postPump dt s l f w)) = distanceTravelled (foilState w) + s * dt"
  "speed (foilState (postPump dt s l f w)) = vlength (velocity (foilState (postPump dt s l f w)))"
  by (simp_all add: postPump_def Let_def energyRegen_def integrateVelocity_def lateralSlip_def
      integratePosition_def rideHeightStep_def)

lemma postPump_rideHeight:
  "rideHeight (foilState (postPump dt s l f w))
     = rideHeight (rideHeightStep dt l (foilState w))"
  by (simp add: postPump_def Let_def energyRegen_def integrateVelocity_def lateralSlip_def
      integratePosition_def rideHeightStep_def)

lemma postPump_velocity_y:
  "vy (velocity (foilState (postPump dt s l f w))) = 0"
  by (simp add: postPump_def Let_def energyRegen_def integrateVelocity_def lateralSlip_def
      integratePosition_def rideHeightStep_def vadd_def multiplyScalar_def addScaledVector_def
      headingToDir_def V3_def dot_def)

lemma postPump_position_y:
  "vy (position (foilState (postPump dt s l f w))) = vy (position (foilState w))"
  by (simp add: postPump_def Let_def energyRegen_def integrateVelocity_def lateralSlip_def
      integratePosition_def rideHeightStep_def vadd_def multiplyScalar_def addScaledVector_def
      headingToDir_def V3_def dot_def)

lemma crashCheck_world:
  "input (crashCheck foil w) = input w"
  "activeFoil (crashCheck foil w) = activeFoil w"
  "paramsWindSpeed (crashCheck foil w) = paramsWindSpeed w"
  "race (crashCheck foil w) = race w"
  "pumpAnimTriggers (crashCheck foil w) = pumpAnimTriggers w"
  "raceResultsShown (crashCheck foil w) = raceResultsShown w"
  by (simp_all add: crashCheck_def)

lemma crashCheck_foil:
  "position (foilState (crashCheck foil w)) = position (foilState w)"
  "velocity (foilState (crashCheck foil w)) = velocity (foilState w)"
  "heading (foilState (crashCheck foil w)) = heading (foilState w)"
  "pitch (foilState (crashCheck foil w)) = pitch (foilState w)"
  "roll (foilState (crashCheck foil w)) = roll (foilState w)"
  "rollRate (foilState (crashCheck foil w)) = rollRate (foilState w)"
  "rideHeightVel (foilState (crashCheck foil w)) = rideHeightVel (foilState w)"
  "energy (foilState (crashCheck foil w)) = energy (foilState w)"
  "speed (foilState (crashCheck foil w)) = speed (foilState w)"
  "lastPumpTime (foilState (crashCheck foil w)) = lastPumpTime (foilState w)"
  "distanceTravelled (foilState (crashCheck foil w)) = distanceTravelled (foilState w)"
  by (simp_all add: crashCheck_def)

lemma updatePhysics_not_riding: "gameState w \<noteq> Riding \<Longrightarrow> updatePhysics dt t w = w"
  by (simp add: updatePhysics_def)

lemma updatePhysics_riding:
  "gameState w = Riding \<Longrightarrow>
   updatePhysics dt t w = crashCheck (activeFoil w) (physicsBody (min dt (1 / 30)) t w)"
  by (simp add: updatePhysics_def)

lemma stepMany_not_riding: "gameState w \<noteq> Riding \<Longrightarrow> stepMany w steps = w"
  unfolding stepMany_def
  by (induction steps) (simp_all add: updatePhysics_not_riding)

lemma physicsBody_position_y:
  "vy (position (foilState (physicsBody dt t w))) = vy (position (foilState w))"
  by (simp add: physicsBody_def Let_def postPump_position_y pumpStep_foil prePump_foil)

lemma updatePhysics_position_y:
  "vy (position (foilState (updatePhysics dt t w))) = vy (position (foilState w))"
  by (simp add: updatePhysics_def crashCheck_foil physicsBody_position_y)


section \<open>The race update and the key handlers leave the rider alone\<close>

lemma updateRaceFor_frame:
  "foilState (updateRaceFor len dt t w) = foilState w"
  "gameState (updateRaceFor len dt t w) = gameState w"
  "input (updateRaceFor len dt t w) = input w"
  "activeFoil (updateRaceFor len dt t w) = activeFoil w"
  "paramsWindSpeed (updateRaceFor len dt t w) = paramsWindSpeed w"
  "pumpAnimTriggers (updateRaceFor len dt t w) = pumpAnimTriggers w"
  by (simp_all add: updateRaceFor_def Let_def)

lemma animate_foilState:
  "foilState (animate dt t w) = foilState (updatePhysics dt t w)"
  by (simp add: animate_def updateRace_def updateRaceFor_frame)

section \<open>No step outside riding\<close>

text \<open>
  C1.  A call of the physics step while the game state is not \<open>Riding\<close> returns the world
  as it was, so the rider state is unchanged; and any sequence of calls does, since the
  game state is unchanged too.  In particular after a crash.
\<close>

theorem C1_step_is_noop_unless_riding:
  "gameState w \<noteq> Riding \<Longrightarrow>
     updatePhysics dt t w = w
     \<and> foilState (updatePhysics dt t w) = foilState w
     \<and> updatePhysics dt' t' (updatePhysics dt t w) = updatePhysics dt t w
     \<and> stepMany w steps = w"
  by (simp add: updatePhysics_not_riding stepMany_not_riding)

theorem C1_witness:
  "gameState (initialWorld\<lparr>gameState := Crashed\<rparr>) \<noteq> Riding
   \<and> updatePhysics 0.016 5 (initialWorld\<lparr>gameState := Crashed\<rparr>) = initialWorld\<lparr>gameState := Crashed\<rparr>
   \<and> stepMany (initialWorld\<lparr>gameState := Crashed\<rparr>) [(0.016, 5), (0.02, 5.02), (1, 6.02)]
       = initialWorld\<lparr>gameState := Crashed\<rparr>"
  using C1_step_is_noop_unless_riding [of "initialWorld\<lparr>gameState := Crashed\<rparr>" "0.016" 5 "0.016" 5
      "[(0.016, 5), (0.02, 5.02), (1, 6.02)]"]
  by simp

section \<open>Energy\<close>

lemma pumpFires_energy: "pumpFires t w \<Longrightarrow> PUMP_COST \<le> energy (foilState w)"
  by (simp add: pumpFires_def)

lemma pumpStep_energy:
  "energy (foilState (pumpStep t w))
     = (if pumpFires t w then energy (foilState w) - PUMP_COST else energy (foilState w))"
  by (simp add: pumpStep_def Let_def)

lemma physicsBody_energy:
  "energy (foilState (physicsBody dt t w))
     = min 100 ((if pumpFires t (fst (prePump dt t w))
                 then energy (foilState w) - PUMP_COST else energy (foilState w))
                + ENERGY_REGEN * dt)"
  by (simp add: physicsBody_def Let_def postPump_foil pumpStep_energy prePump_foil)

lemma pumpFires_prePump: "pumpFires t (fst (prePump dt t w)) = pumpFires t w"
  by (simp add: pumpFires_def prePump_foil prePump_world)

lemma physicsBody_energy_bounds:
  assumes "0 \<le> dt" "0 \<le> energy (foilState w)" "energy (foilState w) \<le> 100"
  shows "0 \<le> energy (foilState (physicsBody dt t w))"
    and "energy (foilState (physicsBody dt t w)) \<le> 100"
proof -
  have "PUMP_COST \<le> energy (foilState w)" if "pumpFires t w"
    using that by (rule pumpFires_energy)
  then show "0 \<le> energy (foilState (physicsBody dt t w))"
    using assms by (simp add: physicsBody_energy pumpFires_prePump ENERGY_REGEN_def)
  show "energy (foilState (physicsBody dt t w)) \<le> 100"
    by (simp add: physicsBody_energy)
qed

lemma updatePhysics_energy_bounds:
  assumes "0 \<le> dt" "0 \<le> energy (foilState w)" "energy (foilState w) \<le> 100"
  shows "0 \<le> energy (foilState (updatePhysics dt t w)) \<and> energy (foilState (updatePhysics dt t w)) \<le> 100"
proof (cases "gameState w = Riding")
  case True
  have "0 \<le> min dt (1 / 30)" using assms(1) by simp
  then show ?thesis
    using True assms physicsBody_energy_bounds [of "min dt (1 / 30)" w t]
    by (simp add: updatePhysics_riding crashCheck_foil)
next
  case False
  then show ?thesis using assms by (simp add: updatePhysics_not_riding)
qed

lemma handleKey_energy_bounds:
  assumes "0 \<le> energy (foilState w)" "energy (foilState w) \<le> 100"
  shows "0 \<le> energy (foilState (handleKey e w)) \<and> energy (foilState (handleKey e w)) \<le> 100"
proof (cases e)
  case (KeyDown k)
  then show ?thesis using assms
    by (cases k) (simp_all add: launchFoil_def resetFoilState_def spawnFoilState_def Let_def)
next
  case (KeyUp k)
  then show ?thesis using assms by (cases k) simp_all
qed

lemma handleKeys_energy_bounds:
  "0 \<le> energy (foilState w) \<Longrightarrow> energy (foilState w) \<le> 100 \<Longrightarrow>
   0 \<le> energy (foilState (foldl (\<lambda>v e. handleKey e v) w es))
   \<and> energy (foilState (foldl (\<lambda>v e. handleKey e v) w es)) \<le> 100"
proof (induction es arbitrary: w)
  case Nil
  then show ?case by simp
next
  case (Cons e es)
  from handleKey_energy_bounds [OF Cons.prems, of e] Cons.IH [of "handleKey e w"]
  show ?case by simp
qed

lemma runFrame_energy_bounds:
  assumes "0 \<le> frameDt fr" "0 \<le> energy (foilState w)" "energy (foilState w) \<le> 100"
  shows "0 \<le> energy (foilState (runFrame w fr)) \<and> energy (foilState (runFrame w fr)) \<le> 100"
proof -
  let ?v = "foldl (\<lambda>v e. handleKey e v) w (frameKeys fr)"
  have "0 \<le> energy (foilState ?v) \<and> energy (foilState ?v) \<le> 100"
    using assms(2,3) by (rule handleKeys_energy_bounds)
  then show ?thesis
    using updatePhysics_energy_bounds [OF assms(1), of ?v "frameTime fr"]
    by (simp add: runFrame_def animate_foilState)
qed

lemma runFrames_energy_bounds:
  "list_all (\<lambda>fr. 0 \<le> frameDt fr) frs \<Longrightarrow>
   0 \<le> energy (foilState w) \<Longrightarrow> energy (foilState w) \<le> 100 \<Longrightarrow>
   0 \<le> energy (foilState (runFrames w frs)) \<and> energy (foilState (runFrames w frs)) \<le> 100"
proof (induction frs arbitrary: w)
  case Nil
  then show ?case by (simp add: runFrames_def)
next
  case (Cons fr frs)
  have "0 \<le> frameDt fr" and rest: "list_all (\<lambda>fr. 0 \<le> frameDt fr) frs"
    using Cons.prems(1) by simp_all
  from runFrame_energy_bounds [OF this(1) Cons.prems(2,3)]
  have "0 \<le> energy (foilState (runFrame w fr))" "energy (foilState (runFrame w fr)) \<le> 100"
    by simp_all
  from Cons.IH [OF rest this] show ?case by (simp add: runFrames_def)
qed

text \<open>
  C4.  With \<open>dt \<ge> 0\<close>, a physics step keeps the energy within \<open>[0, 100]\<close>; and so does
  any run of frames with non-negative \<open>dt\<close>, whatever keys are pressed in between
  (pump attempts, launches, restarts).
\<close>

theorem C4_energy_stays_in_range:
  "0 \<le> energy (foilState w) \<and> energy (foilState w) \<le> 100 \<Longrightarrow>
     (0 \<le> dt \<longrightarrow>
        0 \<le> energy (foilState (updatePhysics dt t w))
        \<and> energy (foilState (updatePhysics dt t w)) \<le> 100)
     \<and> (list_all (\<lambda>fr. 0 \<le> frameDt fr) frs \<longrightarrow>
        0 \<le> energy (foilState (runFrames w frs))
        \<and> energy (foilState (runFrames w frs)) \<le> 100)"
  using updatePhysics_energy_bounds [of dt w t] runFrames_energy_bounds [of frs w]
  by simp


theorem C4_witness:
  "0 \<le> energy (foilState (handleKey (KeyDown Space) (handleKey (KeyDown Space) initialWorld)))
   \<and> energy (foilState (handleKey (KeyDown Space) (handleKey (KeyDown Space) initialWorld))) \<le> 100
   \<and> (0::real) \<le> 1 / 60
   \<and> list_all (\<lambda>fr. 0 \<le> frameDt fr)
        [\<lparr>frameKeys = [], frameDt = 1 / 60, frameTime = 1\<rparr>,
         \<lparr>frameKeys = [KeyDown Space], frameDt = 1 / 50, frameTime = 1.02\<rparr>]
   \<and> pump (input (handleKey (KeyDown Space) (handleKey (KeyDown Space) initialWorld)))
   \<and> gameState (handleKey (KeyDown Space) (handleKey (KeyDown Space) initialWorld)) = Riding
   \<and> 0 \<le> energy (foilState (updatePhysics (1 / 60) 1
              (handleKey (KeyDown Space) (handleKey (KeyDown Space) initialWorld))))
   \<and> energy (foilState (updatePhysics (1 / 60) 1
              (handleKey (KeyDown Space) (handleKey (KeyDown Space) initialWorld)))) \<le> 100
   \<and> 0 \<le> energy (foilState (runFrames
              (handleKey (KeyDown Space) (handleKey (KeyDown Space) initialWorld))
              [\<lparr>frameKeys = [], frameDt = 1 / 60, frameTime = 1\<rparr>,
               \<lparr>frameKeys = [KeyDown Space], frameDt = 1 / 50, frameTime = 1.02\<rparr>]))
   \<and> energy (foilState (runFrames
              (handleKey (KeyDown Space) (handleKey (KeyDown Space) initialWorld))
              [\<lparr>frameKeys = [], frameDt = 1 / 60, frameTime = 1\<rparr>,
               \<lparr>frameKeys = [KeyDown Space], frameDt = 1 / 50, frameTime = 1.02\<rparr>])) \<le> 100"
proof -
  let ?w = "handleKey (KeyDown Space) (handleKey (KeyDown Space) initialWorld)"
  let ?frs = "[\<lparr>frameKeys = [], frameDt = 1 / 60, frameTime = 1\<rparr>,
         \<lparr>frameKeys = [KeyDown Space], frameDt = 1 / 50, frameTime = 1.02\<rparr>]"
  have w: "energy (foilState ?w) = 100" "pump (input ?w)" "gameState ?w = Riding"
    by (simp_all add: initialWorld_def launchFoil_def spawnFoilState_def Let_def)
  have h: "0 \<le> energy (foilState ?w) \<and> energy (foilState ?w) \<le> 100"
    by (simp add: w del: handleKey.simps)
  have f: "list_all (\<lambda>fr. 0 \<le> frameDt fr) ?frs"
    by simp
  show ?thesis
    using C4_energy_stays_in_range [OF h, of "1 / 60" 1 ?frs] h f w
    by (simp del: handleKey.simps)
qed

section \<open>The vertical position\<close>

lemma handleKey_position_y:
  "vy (position (foilState w)) = 0 \<Longrightarrow> vy (position (foilState (handleKey e w))) = 0"
proof (cases e)
  case (KeyDown k)
  assume "vy (position (foilState w)) = 0"
  with KeyDown show ?thesis
    by (cases k)
      (simp_all add: launchFoil_def resetFoilState_def spawnFoilState_def SPAWN_POINT_def
        V3_def Let_def)
next
  case (KeyUp k)
  assume "vy (position (foilState w)) = 0"
  with KeyUp show ?thesis by (cases k) simp_all
qed

lemma handleKeys_position_y:
  "vy (position (foilState w)) = 0 \<Longrightarrow>
   vy (position (foilState (foldl (\<lambda>v e. handleKey e v) w es))) = 0"
  by (induction es arbitrary: w) (simp_all add: handleKey_position_y)

lemma runFrame_position_y:
  "vy (position (foilState w)) = 0 \<Longrightarrow> vy (position (foilState (runFrame w fr))) = 0"
  by (simp add: runFrame_def animate_foilState updatePhysics_position_y handleKeys_position_y)

lemma runFrames_position_y:
  "vy (position (foilState w)) = 0 \<Longrightarrow> vy (position (foilState (runFrames w frs))) = 0"
  unfolding runFrames_def
  by (induction frs arbitrary: w) (simp_all add: runFrame_position_y)

lemma initialWorld_position_y: "vy (position (foilState initialWorld)) = 0"
  by (simp add: initialWorld_def spawnFoilState_def SPAWN_POINT_def V3_def)

text \<open>
  C10.  The physics step never changes the y component of the rider's position.  It
  starts as 0 at the spawn point and is 0 after any run of frames and keys.
\<close>

theorem C10_position_y_is_never_changed:
  "vy (position (foilState (updatePhysics dt t w))) = vy (position (foilState w))
   \<and> vy (position (foilState initialWorld)) = 0
   \<and> vy (position (foilState (runFrames initialWorld frs))) = 0"
  by (simp add: updatePhysics_position_y initialWorld_position_y runFrames_position_y)

section \<open>The ride height\<close>

lemma max_min_range:
  fixes lo hi x :: real
  assumes "0 \<le> lo" "lo \<le> hi"
  shows "0 \<le> max lo (min hi x) \<and> max lo (min hi x) \<le> hi \<and> lo \<le> max lo (min hi x)"
  using assms by auto

lemma rideHeightStep_rideHeight:
  "\<exists>x. rideHeight (rideHeightStep dt liftMag fs)
     = max (if liftMag / (RIDER_MASS * GRAVITY) > 1.0 then 0.12 else 0) (min MAST_LENGTH x)"
  by (rule exI) (simp add: rideHeightStep_def Let_def)

lemma rideHeightStep_range:
  "0 \<le> rideHeight (rideHeightStep dt liftMag fs)
   \<and> rideHeight (rideHeightStep dt liftMag fs) \<le> MAST_LENGTH
   \<and> (if liftMag / (RIDER_MASS * GRAVITY) > 1.0 then 0.12 else 0)
        \<le> rideHeight (rideHeightStep dt liftMag fs)"
proof -
  let ?lo = "if liftMag / (RIDER_MASS * GRAVITY) > 1.0 then 0.12 else (0::real)"
  obtain x where x: "rideHeight (rideHeightStep dt liftMag fs) = max ?lo (min MAST_LENGTH x)"
    using rideHeightStep_rideHeight by blast
  have "0 \<le> ?lo" "?lo \<le> MAST_LENGTH"
    by (simp_all add: MAST_LENGTH_def)
  from max_min_range [OF this, of x] show ?thesis
    unfolding x by blast
qed

lemma pumpStep_rideHeight_range:
  assumes "0 \<le> rideHeight (foilState w)" "rideHeight (foilState w) \<le> MAST_LENGTH"
  shows "0 \<le> rideHeight (foilState (pumpStep t w))"
    and "rideHeight (foilState (pumpStep t w)) \<le> MAST_LENGTH"
  using assms by (auto simp: pumpStep_def Let_def MAST_LENGTH_def min_def)

lemma crashCheck_rideHeight_range:
  assumes "0 \<le> rideHeight (foilState w)" "rideHeight (foilState w) \<le> MAST_LENGTH"
  shows "0 \<le> rideHeight (foilState (crashCheck foil w))"
    and "rideHeight (foilState (crashCheck foil w)) \<le> MAST_LENGTH"
  using assms by (simp_all add: crashCheck_def MAST_LENGTH_def)

lemma physicsBody_rideHeight_range:
  "0 \<le> rideHeight (foilState (physicsBody dt t w))"
  "rideHeight (foilState (physicsBody dt t w)) \<le> MAST_LENGTH"
  using rideHeightStep_range by (simp_all add: physicsBody_def Let_def postPump_rideHeight)

lemma updatePhysics_rideHeight_range:
  assumes "0 \<le> rideHeight (foilState w)" "rideHeight (foilState w) \<le> MAST_LENGTH"
  shows "0 \<le> rideHeight (foilState (updatePhysics dt t w))
    \<and> rideHeight (foilState (updatePhysics dt t w)) \<le> MAST_LENGTH"
proof (cases "gameState w = Riding")
  case True
  then show ?thesis
    using crashCheck_rideHeight_range [OF physicsBody_rideHeight_range]
    by (simp add: updatePhysics_riding)
next
  case False
  then show ?thesis using assms by (simp add: updatePhysics_not_riding)
qed

lemma handleKey_rideHeight_range:
  assumes "0 \<le> rideHeight (foilState w)" "rideHeight (foilState w) \<le> MAST_LENGTH"
  shows "0 \<le> rideHeight (foilState (handleKey e w))
    \<and> rideHeight (foilState (handleKey e w)) \<le> MAST_LENGTH"
proof (cases e)
  case (KeyDown k)
  then show ?thesis using assms
    by (cases k)
      (simp_all add: launchFoil_def resetFoilState_def spawnFoilState_def Let_def MAST_LENGTH_def)
next
  case (KeyUp k)
  then show ?thesis using assms by (cases k) simp_all
qed

lemma handleKeys_rideHeight_range:
  "0 \<le> rideHeight (foilState w) \<Longrightarrow> rideHeight (foilState w) \<le> MAST_LENGTH \<Longrightarrow>
   0 \<le> rideHeight (foilState (foldl (\<lambda>v e. handleKey e v) w es))
   \<and> rideHeight (foilState (foldl (\<lambda>v e. handleKey e v) w es)) \<le> MAST_LENGTH"
proof (induction es arbitrary: w)
  case Nil
  then show ?case by simp
next
  case (Cons e es)
  from handleKey_rideHeight_range [OF Cons.prems, of e] Cons.IH [of "handleKey e w"]
  show ?case by simp
qed

lemma runFrame_rideHeight_range:
  assumes "0 \<le> rideHeight (foilState w)" "rideHeight (foilState w) \<le> MAST_LENGTH"
  shows "0 \<le> rideHeight (foilState (runFrame w fr))
    \<and> rideHeight (foilState (runFrame w fr)) \<le> MAST_LENGTH"
proof -
  let ?v = "foldl (\<lambda>v e. handleKey e v) w (frameKeys fr)"
  have v: "0 \<le> rideHeight (foilState ?v) \<and> rideHeight (foilState ?v) \<le> MAST_LENGTH"
    using assms by (rule handleKeys_rideHeight_range)
  then have "0 \<le> rideHeight (foilState ?v)" "rideHeight (foilState ?v) \<le> MAST_LENGTH"
    by simp_all
  from updatePhysics_rideHeight_range [OF this] show ?thesis
    by (simp add: runFrame_def animate_foilState)
qed

lemma runFrames_rideHeight_range:
  "0 \<le> rideHeight (foilState w) \<Longrightarrow> rideHeight (foilState w) \<le> MAST_LENGTH \<Longrightarrow>
   0 \<le> rideHeight (foilState (runFrames w frs))
   \<and> rideHeight (foilState (runFrames w frs)) \<le> MAST_LENGTH"
proof (induction frs arbitrary: w)
  case Nil
  then show ?case by (simp add: runFrames_def)
next
  case (Cons fr frs)
  from runFrame_rideHeight_range [OF Cons.prems, of fr]
  have "0 \<le> rideHeight (foilState (runFrame w fr))"
    "rideHeight (foilState (runFrame w fr)) \<le> MAST_LENGTH"
    by simp_all
  from Cons.IH [OF this] show ?case by (simp add: runFrames_def)
qed

text \<open>
  C8.  The ride height stays within \<open>[0, MAST_LENGTH]\<close>, with \<open>MAST_LENGTH = 0.8\<close>.
  Each of the three writes keeps it there: the pump bump; the spring integration with
  its clamp, whose result is in range whatever the height was, and at least \<open>0.12\<close>
  when the lift ratio exceeds 1; and the crash transitions.  So does a whole step, and
  any run of frames and keys.
\<close>

theorem C8_rideHeight_stays_in_range:
  "0 \<le> rideHeight (foilState w) \<and> rideHeight (foilState w) \<le> MAST_LENGTH \<Longrightarrow>
     MAST_LENGTH = 0.8
     \<and> 0 \<le> rideHeight (foilState (pumpStep t w))
     \<and> rideHeight (foilState (pumpStep t w)) \<le> MAST_LENGTH
     \<and> 0 \<le> rideHeight (rideHeightStep dt liftMag fs)
     \<and> rideHeight (rideHeightStep dt liftMag fs) \<le> MAST_LENGTH
     \<and> (if liftMag / (RIDER_MASS * GRAVITY) > 1.0 then 0.12 else 0)
          \<le> rideHeight (rideHeightStep dt liftMag fs)
     \<and> 0 \<le> rideHeight (foilState (crashCheck foil w))
     \<and> rideHeight (foilState (crashCheck foil w)) \<le> MAST_LENGTH
     \<and> 0 \<le> rideHeight (foilState (updatePhysics dt t w))
     \<and> rideHeight (foilState (updatePhysics dt t w)) \<le> MAST_LENGTH
     \<and> 0 \<le> rideHeight (foilState (runFrames w frs))
     \<and> rideHeight (foilState (runFrames w frs)) \<le> MAST_LENGTH"
proof -
  assume a: "0 \<le> rideHeight (foilState w) \<and> rideHeight (foilState w) \<le> MAST_LENGTH"
  then have lo: "0 \<le> rideHeight (foilState w)" and hi: "rideHeight (foilState w) \<le> MAST_LENGTH"
    by simp_all
  show ?thesis
    using pumpStep_rideHeight_range [OF lo hi, of t]
      rideHeightStep_range [of dt liftMag fs]
      crashCheck_rideHeight_range [OF lo hi, of foil]
      updatePhysics_rideHeight_range [OF lo hi, of dt t]
      runFrames_rideHeight_range [OF lo hi, of frs]
    by (simp add: MAST_LENGTH_def)
qed


theorem C8_witness:
  "0 \<le> rideHeight (foilState (handleKey (KeyDown Space) initialWorld))
   \<and> rideHeight (foilState (handleKey (KeyDown Space) initialWorld)) \<le> MAST_LENGTH
   \<and> 0 \<le> rideHeight (foilState (updatePhysics (1 / 60) 1 (handleKey (KeyDown Space) initialWorld)))
   \<and> rideHeight (foilState (updatePhysics (1 / 60) 1 (handleKey (KeyDown Space) initialWorld)))
        \<le> MAST_LENGTH
   \<and> 0 \<le> rideHeight (foilState (runFrames (handleKey (KeyDown Space) initialWorld)
        [\<lparr>frameKeys = [KeyDown Space], frameDt = 1 / 60, frameTime = 1\<rparr>]))
   \<and> rideHeight (foilState (runFrames (handleKey (KeyDown Space) initialWorld)
        [\<lparr>frameKeys = [KeyDown Space], frameDt = 1 / 60, frameTime = 1\<rparr>])) \<le> MAST_LENGTH"
proof -
  let ?w = "handleKey (KeyDown Space) initialWorld"
  have h: "0 \<le> rideHeight (foilState ?w) \<and> rideHeight (foilState ?w) \<le> MAST_LENGTH"
    by (simp add: initialWorld_def launchFoil_def spawnFoilState_def Let_def MAST_LENGTH_def)
  show ?thesis
    using C8_rideHeight_stays_in_range [OF h, of 1 "1 / 60" 0 "foilState ?w" "activeFoil ?w"
        "[\<lparr>frameKeys = [KeyDown Space], frameDt = 1 / 60, frameTime = 1\<rparr>]"] h
    by (simp del: handleKey.simps)
qed


section \<open>The pump\<close>

lemma pumpFires_iff:
  "pumpFires t (fst (prePump dt t w))
     \<longleftrightarrow> pump (input w) \<and> energy (foilState w) \<ge> 20 \<and> t - lastPumpTime (foilState w) > 0.35"
  by (simp add: pumpFires_def prePump_foil prePump_world PUMP_COST_def PUMP_COOLDOWN_def)







section \<open>Calm water\<close>

text \<open>
  With wind speed 0 every wave amplitude is 0: the surface is the plane \<open>y = 0\<close> with
  normal \<open>(0, 1, 0)\<close>, the solver stays at its start, and the gradient is 0.  These
  values make the step computable by rewriting at concrete inputs.
\<close>

lemma getWaterDisplacement_calm:
  "getWaterDisplacement x z t 0 = \<lparr>infoPosition = V3 x 0 z, infoNormal = V3 0 1 0\<rparr>"
  by (simp add: getWaterDisplacement_def waveConfig_def displaceBy_def Let_def V3_def V2_def
      normalize_def crossVectors_def vlength_def divideScalar_def multiplyScalar_def)

lemma solverBody_calm:
  "solverBody x z t 0 \<lparr>testX = x, testZ = z, info = getWaterDisplacement x z t 0, evals = es\<rparr>
     = \<lparr>testX = x, testZ = z, info = getWaterDisplacement x z t 0, evals = es @ [(x, z)]\<rparr>"
  by (simp add: solverBody_def Let_def getWaterDisplacement_calm V3_def)

lemma getSurfaceInfoAtWorldPos_calm:
  "getSurfaceInfoAtWorldPos x z t 0 = \<lparr>infoPosition = V3 x 0 z, infoNormal = V3 0 1 0\<rparr>"
  by (simp add: getSurfaceInfoAtWorldPos_def solverRun_def solverLoop_unroll solverStart_def
      solverBody_calm)
    (simp add: getWaterDisplacement_calm)

lemma sampleWave_calm_gradient:
  "gradient (sampleWaveAtFoilPoints fs foil t 0) = V2 0 0"
  by (simp add: sampleWaveAtFoilPoints_def Let_def getSurfaceInfoAtWorldPos_calm V3_def)

lemma sampleWave_calm_tips:
  "vy (infoPosition (rightTip (sampleWaveAtFoilPoints fs foil t 0))) = 0"
  "vy (infoPosition (leftTip (sampleWaveAtFoilPoints fs foil t 0))) = 0"
  by (simp_all add: sampleWaveAtFoilPoints_def Let_def getSurfaceInfoAtWorldPos_calm V3_def)


section \<open>The crash check\<close>

lemma physicsBody_kept:
  "gameState (physicsBody dt t w) = gameState w"
  "onFoil (foilState (physicsBody dt t w)) = onFoil (foilState w)"
  "activeFoil (physicsBody dt t w) = activeFoil w"
  "speed (foilState (physicsBody dt t w)) = vlength (velocity (foilState (physicsBody dt t w)))"
  by (simp_all add: physicsBody_def Let_def postPump_world postPump_foil pumpStep_world
      pumpStep_foil prePump_world prePump_foil)

lemma crashCheck_crash:
  "rideHeight (foilState p) \<le> 0.001
     \<or> (rideHeight (foilState p) < 0.05 \<and> speed (foilState p) < stallSpeed foil) \<Longrightarrow>
   crashCheck foil p
     = p\<lparr>foilState := (foilState p)\<lparr>rideHeight := 0, onFoil := False\<rparr>, gameState := Crashed\<rparr>"
  by (auto simp add: crashCheck_def)

lemma crashCheck_pass:
  "\<not> rideHeight (foilState p) \<le> 0.001 \<Longrightarrow>
   \<not> (rideHeight (foilState p) < 0.05 \<and> speed (foilState p) < stallSpeed foil) \<Longrightarrow>
   crashCheck foil p = p"
  by (auto simp add: crashCheck_def)

text \<open>
  C2.  A riding step ends with the crash check on \<open>p\<close>, the world that the rest of the
  step has produced; the speed in \<open>p\<close> is the length of the final velocity.  First the
  hard floor: a ride height of at most 0.001 zeroes the height, clears \<open>onFoil\<close> and sets
  the game state to \<open>Crashed\<close>.  Otherwise a ride height below 0.05 with a speed below the
  stall speed of the active profile does the same.  Otherwise the check changes nothing:
  the game stays \<open>Riding\<close> and \<open>onFoil\<close> is what it was at the start of the step.
\<close>

theorem C2_crash_check_order:
  "gameState w = Riding \<Longrightarrow>
   (let p = physicsBody (min dt (1 / 30)) t w;
        w' = updatePhysics dt t w
    in w' = crashCheck (activeFoil w) p
       \<and> gameState p = Riding
       \<and> onFoil (foilState p) = onFoil (foilState w)
       \<and> speed (foilState p) = vlength (velocity (foilState p))
       \<and> velocity (foilState w') = velocity (foilState p)
       \<and> speed (foilState w') = speed (foilState p)
       \<and> (rideHeight (foilState p) \<le> 0.001 \<longrightarrow>
            rideHeight (foilState w') = 0 \<and> \<not> onFoil (foilState w') \<and> gameState w' = Crashed)
       \<and> (\<not> rideHeight (foilState p) \<le> 0.001
            \<and> rideHeight (foilState p) < 0.05
            \<and> speed (foilState p) < stallSpeed (activeFoil w) \<longrightarrow>
            rideHeight (foilState w') = 0 \<and> \<not> onFoil (foilState w') \<and> gameState w' = Crashed)
       \<and> (\<not> rideHeight (foilState p) \<le> 0.001
            \<and> \<not> (rideHeight (foilState p) < 0.05
                  \<and> speed (foilState p) < stallSpeed (activeFoil w)) \<longrightarrow>
            w' = p \<and> gameState w' = Riding
            \<and> onFoil (foilState w') = onFoil (foilState w)
            \<and> rideHeight (foilState w') = rideHeight (foilState p)))"
proof -
  assume riding: "gameState w = Riding"
  define p where "p = physicsBody (min dt (1 / 30)) t w"
  define w' where "w' = updatePhysics dt t w"
  let ?foil = "activeFoil w"
  have w': "w' = crashCheck ?foil p"
    by (simp add: w'_def p_def updatePhysics_riding riding)
  have kept: "gameState p = Riding" "onFoil (foilState p) = onFoil (foilState w)"
    "speed (foilState p) = vlength (velocity (foilState p))"
    by (simp_all add: p_def physicsBody_kept riding)
  have same: "velocity (foilState w') = velocity (foilState p)"
    "speed (foilState w') = speed (foilState p)"
    by (simp_all add: w' crashCheck_foil)
  have floor: "rideHeight (foilState w') = 0 \<and> \<not> onFoil (foilState w') \<and> gameState w' = Crashed"
    if "rideHeight (foilState p) \<le> 0.001"
    using that by (simp add: w' crashCheck_crash)
  have stall: "rideHeight (foilState w') = 0 \<and> \<not> onFoil (foilState w') \<and> gameState w' = Crashed"
    if "rideHeight (foilState p) < 0.05" "speed (foilState p) < stallSpeed ?foil"
    using that by (simp add: w' crashCheck_crash)
  have pass: "w' = p"
    if "\<not> rideHeight (foilState p) \<le> 0.001"
      "\<not> (rideHeight (foilState p) < 0.05 \<and> speed (foilState p) < stallSpeed ?foil)"
    unfolding w' using that by (rule crashCheck_pass)
  have main: "w' = crashCheck (activeFoil w) p
       \<and> gameState p = Riding
       \<and> onFoil (foilState p) = onFoil (foilState w)
       \<and> speed (foilState p) = vlength (velocity (foilState p))
       \<and> velocity (foilState w') = velocity (foilState p)
       \<and> speed (foilState w') = speed (foilState p)
       \<and> (rideHeight (foilState p) \<le> 0.001 \<longrightarrow>
            rideHeight (foilState w') = 0 \<and> \<not> onFoil (foilState w') \<and> gameState w' = Crashed)
       \<and> (\<not> rideHeight (foilState p) \<le> 0.001
            \<and> rideHeight (foilState p) < 0.05
            \<and> speed (foilState p) < stallSpeed (activeFoil w) \<longrightarrow>
            rideHeight (foilState w') = 0 \<and> \<not> onFoil (foilState w') \<and> gameState w' = Crashed)
       \<and> (\<not> rideHeight (foilState p) \<le> 0.001
            \<and> \<not> (rideHeight (foilState p) < 0.05
                  \<and> speed (foilState p) < stallSpeed (activeFoil w)) \<longrightarrow>
            w' = p \<and> gameState w' = Riding
            \<and> onFoil (foilState w') = onFoil (foilState w)
            \<and> rideHeight (foilState w') = rideHeight (foilState p))"
    using w' kept same floor stall pass by metis
  from main show ?thesis
    unfolding Let_def p_def w'_def .
qed

section \<open>Evaluating a step at a concrete state\<close>

lemma prePump_pitch:
  "pitch (foilState (fst (prePump dt t w)))
     = pitch (foilState w) + (targetPitchOf (input w) - pitch (foilState w)) * 5.0 * dt"
  by (simp add: prePump_def Let_def turning_frame rollPitch_def)

lemma prePump_force:
  "snd (snd (snd (prePump dt t w)))
     = netForce
         (gradient (sampleWaveAtFoilPoints
            ((foilState w)\<lparr>speed := vlength (velocity (foilState w))\<rparr>) (activeFoil w) t
            (paramsWindSpeed w)))
         (velocity (foilState w)) (vlength (velocity (foilState w)))
         (dragMagnitude (activeFoil w) (vlength (velocity (foilState w)))
            (rideHeight (foilState w)))"
  by (simp add: prePump_def Let_def rollPitch_frame)

lemma physicsBody_rideHeight:
  "rideHeight (foilState (physicsBody dt t w))
     = rideHeight (rideHeightStep dt (liftMagnitude (activeFoil w) (vlength (velocity (foilState w))))
         (foilState (pumpStep t (fst (prePump dt t w)))))"
  by (simp add: physicsBody_def Let_def postPump_rideHeight prePump_locals)

lemma vlength_zero: "vlength (V3 0 0 0) = 0"
  by (simp add: vlength_def V3_def)

lemma vlength_z: "vlength (V3 0 0 z) = \<bar>z\<bar>"
  by (simp add: vlength_def V3_def)

lemma liftMagnitude_zero: "liftMagnitude foil 0 = 0"
  by (simp add: liftMagnitude_def)

lemma netForce_still: "netForce (V2 0 0) vel 0 dragMag = V3 0 0 0"
  by (simp add: netForce_def Let_def V3_def V2_def)

lemma postPump_velocity_still:
  "velocity (foilState w) = V3 0 0 0 \<Longrightarrow>
   velocity (foilState (postPump dt s l (V3 0 0 0) w)) = V3 0 0 0"
  by (simp add: postPump_def Let_def energyRegen_def integrateVelocity_def lateralSlip_def
      integratePosition_def rideHeightStep_def vadd_def multiplyScalar_def addScaledVector_def
      divideScalar_def headingToDir_def V3_def dot_def)


lemma hard_floor_example:
  "rideHeight (foilState (physicsBody (min (1 / 60) (1 / 30)) 1
     (initialWorld\<lparr>gameState := Riding,
        foilState := spawnFoilState\<lparr>velocity := V3 0 0 7, rideHeight := 0.001001\<rparr>\<rparr>)))
   \<le> 0.001"
  by (simp add: physicsBody_rideHeight rideHeightStep_def Let_def pumpStep_not_fired
      pumpFires_iff pumpStep_foil prePump_foil prePump_pitch targetPitchOf_def initialWorld_def
      spawnFoilState_def vlength_z liftMagnitude_def liftCoeff_def smoothstep_def
      highAspectRace_def clamp_def MAST_LENGTH_def RHO_WATER_def RIDER_MASS_def GRAVITY_def
      HEIGHT_SPRING_def HEIGHT_DAMPING_def)

lemma low_and_slow_example:
  "\<not> rideHeight (foilState (physicsBody (min (1 / 60) (1 / 30)) 1
       (initialWorld\<lparr>gameState := Riding, paramsWindSpeed := 0,
                     foilState := spawnFoilState\<lparr>rideHeight := 0.05\<rparr>\<rparr>))) \<le> 0.001"
  "rideHeight (foilState (physicsBody (min (1 / 60) (1 / 30)) 1
       (initialWorld\<lparr>gameState := Riding, paramsWindSpeed := 0,
                     foilState := spawnFoilState\<lparr>rideHeight := 0.05\<rparr>\<rparr>))) < 0.05"
  by (simp_all add: physicsBody_rideHeight rideHeightStep_def Let_def pumpStep_not_fired
      pumpFires_iff pumpStep_foil prePump_foil prePump_pitch targetPitchOf_def initialWorld_def
      spawnFoilState_def vlength_zero liftMagnitude_zero clamp_def MAST_LENGTH_def
      HEIGHT_SPRING_def HEIGHT_DAMPING_def)

lemma low_and_slow_speed:
  "speed (foilState (physicsBody (min (1 / 60) (1 / 30)) 1
       (initialWorld\<lparr>gameState := Riding, paramsWindSpeed := 0,
                     foilState := spawnFoilState\<lparr>rideHeight := 0.05\<rparr>\<rparr>))) = 0"
proof -
  let ?w = "initialWorld\<lparr>gameState := Riding, paramsWindSpeed := 0,
                     foilState := spawnFoilState\<lparr>rideHeight := 0.05\<rparr>\<rparr>"
  let ?dt = "min (1 / 60) (1 / 30) :: real"
  have v: "velocity (foilState ?w) = V3 0 0 0" and ws: "paramsWindSpeed ?w = 0"
    and np: "\<not> pump (input ?w)"
    by (simp_all add: initialWorld_def spawnFoilState_def)
  have force: "snd (snd (snd (prePump ?dt 1 ?w))) = V3 0 0 0"
    by (simp only: prePump_force v ws vlength_zero sampleWave_calm_gradient netForce_still)
  have quiet: "foilState (pumpStep 1 (fst (prePump ?dt 1 ?w))) = foilState (fst (prePump ?dt 1 ?w))"
    by (rule pumpStep_not_fired) (simp add: pumpFires_iff initialWorld_def)
  have "velocity (foilState (pumpStep 1 (fst (prePump ?dt 1 ?w)))) = V3 0 0 0"
    by (simp only: quiet prePump_foil v)
  then have "velocity (foilState (physicsBody ?dt 1 ?w)) = V3 0 0 0"
    by (simp only: physicsBody_def Let_def force postPump_velocity_still)
  then show ?thesis
    by (simp only: physicsBody_kept vlength_zero)
qed

lemma cruising_example:
  "0.12 \<le> rideHeight (foilState (physicsBody (min (1 / 60) (1 / 30)) 1
       (handleKey (KeyDown Space) initialWorld)))"
proof -
  let ?w = "handleKey (KeyDown Space) initialWorld"
  have v: "velocity (foilState ?w) = V3 0 0 10.5" and f: "activeFoil ?w = highAspectRace"
    by (simp_all add: initialWorld_def launchFoil_def Let_def spawnFoilState_def
        highAspectRace_def headingToDir_def multiplyScalar_def V3_def)
  have "liftMagnitude highAspectRace (vlength (V3 0 0 10.5)) / (RIDER_MASS * GRAVITY) > 1.0"
    by (simp add: vlength_z liftMagnitude_def liftCoeff_def smoothstep_def Let_def
        highAspectRace_def RHO_WATER_def RIDER_MASS_def GRAVITY_def)
  with rideHeightStep_range [of "min (1 / 60) (1 / 30)"
      "liftMagnitude highAspectRace (vlength (V3 0 0 10.5))"
      "foilState (pumpStep 1 (fst (prePump (min (1 / 60) (1 / 30)) 1 ?w)))"]
  show ?thesis
    by (simp only: physicsBody_rideHeight v f if_True)
qed

theorem C2_witness:
  "gameState (initialWorld\<lparr>gameState := Riding, foilState := spawnFoilState\<lparr>velocity := V3 0 0 7, rideHeight := 0.001001\<rparr>\<rparr>)
     = Riding
   \<and> rideHeight (foilState (physicsBody (min (1 / 60) (1 / 30)) 1
        (initialWorld\<lparr>gameState := Riding, foilState := spawnFoilState\<lparr>velocity := V3 0 0 7, rideHeight := 0.001001\<rparr>\<rparr>)))
       \<le> 0.001
   \<and> gameState (updatePhysics (1 / 60) 1
        (initialWorld\<lparr>gameState := Riding, foilState := spawnFoilState\<lparr>velocity := V3 0 0 7, rideHeight := 0.001001\<rparr>\<rparr>))
       = Crashed
   \<and> rideHeight (foilState (updatePhysics (1 / 60) 1
        (initialWorld\<lparr>gameState := Riding, foilState := spawnFoilState\<lparr>velocity := V3 0 0 7, rideHeight := 0.001001\<rparr>\<rparr>)))
       = 0
   \<and> \<not> onFoil (foilState (updatePhysics (1 / 60) 1
        (initialWorld\<lparr>gameState := Riding, foilState := spawnFoilState\<lparr>velocity := V3 0 0 7, rideHeight := 0.001001\<rparr>\<rparr>)))
   \<and> gameState (initialWorld\<lparr>gameState := Riding, paramsWindSpeed := 0,
                     foilState := spawnFoilState\<lparr>rideHeight := 0.05\<rparr>\<rparr>) = Riding
   \<and> \<not> rideHeight (foilState (physicsBody (min (1 / 60) (1 / 30)) 1
        (initialWorld\<lparr>gameState := Riding, paramsWindSpeed := 0,
                     foilState := spawnFoilState\<lparr>rideHeight := 0.05\<rparr>\<rparr>))) \<le> 0.001
   \<and> rideHeight (foilState (physicsBody (min (1 / 60) (1 / 30)) 1
        (initialWorld\<lparr>gameState := Riding, paramsWindSpeed := 0,
                     foilState := spawnFoilState\<lparr>rideHeight := 0.05\<rparr>\<rparr>))) < 0.05
   \<and> speed (foilState (physicsBody (min (1 / 60) (1 / 30)) 1
        (initialWorld\<lparr>gameState := Riding, paramsWindSpeed := 0,
                     foilState := spawnFoilState\<lparr>rideHeight := 0.05\<rparr>\<rparr>)))
       < stallSpeed (activeFoil (initialWorld\<lparr>gameState := Riding, paramsWindSpeed := 0,
                     foilState := spawnFoilState\<lparr>rideHeight := 0.05\<rparr>\<rparr>))
   \<and> gameState (updatePhysics (1 / 60) 1
        (initialWorld\<lparr>gameState := Riding, paramsWindSpeed := 0,
                     foilState := spawnFoilState\<lparr>rideHeight := 0.05\<rparr>\<rparr>)) = Crashed
   \<and> rideHeight (foilState (updatePhysics (1 / 60) 1
        (initialWorld\<lparr>gameState := Riding, paramsWindSpeed := 0,
                     foilState := spawnFoilState\<lparr>rideHeight := 0.05\<rparr>\<rparr>))) = 0
   \<and> gameState (handleKey (KeyDown Space) initialWorld) = Riding
   \<and> \<not> rideHeight (foilState (physicsBody (min (1 / 60) (1 / 30)) 1
        (handleKey (KeyDown Space) initialWorld))) \<le> 0.001
   \<and> \<not> rideHeight (foilState (physicsBody (min (1 / 60) (1 / 30)) 1
        (handleKey (KeyDown Space) initialWorld))) < 0.05
   \<and> gameState (updatePhysics (1 / 60) 1 (handleKey (KeyDown Space) initialWorld)) = Riding
   \<and> onFoil (foilState (updatePhysics (1 / 60) 1 (handleKey (KeyDown Space) initialWorld)))"
proof -
  define wa where
    "wa = initialWorld\<lparr>gameState := Riding, foilState := spawnFoilState\<lparr>velocity := V3 0 0 7, rideHeight := 0.001001\<rparr>\<rparr>"
  define wb where
    "wb = initialWorld\<lparr>gameState := Riding, paramsWindSpeed := 0,
                     foilState := spawnFoilState\<lparr>rideHeight := 0.05\<rparr>\<rparr>"
  define wc where "wc = handleKey (KeyDown Space) initialWorld"
  define pa where "pa = physicsBody (min (1 / 60) (1 / 30)) 1 wa"
  define pb where "pb = physicsBody (min (1 / 60) (1 / 30)) 1 wb"
  define pc where "pc = physicsBody (min (1 / 60) (1 / 30)) 1 wc"
  have ra: "gameState wa = Riding" and rb: "gameState wb = Riding"
    and rc: "gameState wc = Riding" and oc: "onFoil (foilState wc)"
    and sb: "stallSpeed (activeFoil wb) = 7"
    by (simp_all add: wa_def wb_def wc_def initialWorld_def launchFoil_def Let_def
        highAspectRace_def)
  have a: "rideHeight (foilState pa) \<le> 0.001"
    unfolding pa_def wa_def by (rule hard_floor_example)
  have b: "\<not> rideHeight (foilState pb) \<le> 0.001" "rideHeight (foilState pb) < 0.05"
    "speed (foilState pb) = 0"
    unfolding pb_def wb_def by (rule low_and_slow_example low_and_slow_speed)+
  have c: "0.12 \<le> rideHeight (foilState pc)"
    unfolding pc_def wc_def by (rule cruising_example)
  note A = C2_crash_check_order [OF ra, of "1 / 60" 1, unfolded Let_def, folded pa_def]
  note B = C2_crash_check_order [OF rb, of "1 / 60" 1, unfolded Let_def, folded pb_def]
  note C = C2_crash_check_order [OF rc, of "1 / 60" 1, unfolded Let_def, folded pc_def]
  have "gameState wa = Riding
   \<and> rideHeight (foilState pa) \<le> 0.001
   \<and> gameState (updatePhysics (1 / 60) 1 wa) = Crashed
   \<and> rideHeight (foilState (updatePhysics (1 / 60) 1 wa)) = 0
   \<and> \<not> onFoil (foilState (updatePhysics (1 / 60) 1 wa))
   \<and> gameState wb = Riding
   \<and> \<not> rideHeight (foilState pb) \<le> 0.001
   \<and> rideHeight (foilState pb) < 0.05
   \<and> speed (foilState pb) < stallSpeed (activeFoil wb)
   \<and> gameState (updatePhysics (1 / 60) 1 wb) = Crashed
   \<and> rideHeight (foilState (updatePhysics (1 / 60) 1 wb)) = 0
   \<and> gameState wc = Riding
   \<and> \<not> rideHeight (foilState pc) \<le> 0.001
   \<and> \<not> rideHeight (foilState pc) < 0.05
   \<and> gameState (updatePhysics (1 / 60) 1 wc) = Riding
   \<and> onFoil (foilState (updatePhysics (1 / 60) 1 wc))"
    using A B C ra rb rc oc sb a b c by auto
  then show ?thesis
    unfolding pa_def pb_def pc_def wa_def wb_def wc_def .
qed


section \<open>The split loops\<close>

lemma splitBody_fields:
  "kmSplitTimes (splitBody k r) = kmSplitTimes r @ [totalElapsed r]"
  "lastKmReached (splitBody k r) = k"
  "totalElapsed (splitBody k r) = totalElapsed r"
  "startTime (splitBody k r) = startTime r"
  "active (splitBody k r) = active r"
  "finished (splitBody k r) = finished r"
  by (simp_all add: splitBody_def Let_def)

lemma recordSplits_kept:
  "totalElapsed (recordSplits k hi r) = totalElapsed r
   \<and> startTime (recordSplits k hi r) = startTime r
   \<and> active (recordSplits k hi r) = active r
   \<and> finished (recordSplits k hi r) = finished r"
proof (induction k hi r rule: recordSplits.induct)
  case (1 k hi r)
  show ?case
  proof (cases "k \<le> hi")
    case True
    with "1.IH" show ?thesis
      by (subst (1 2 3 4) recordSplits.simps) (simp add: splitBody_fields)
  next
    case False
    then show ?thesis by (subst (1 2 3 4) recordSplits.simps) simp
  qed
qed

lemma recordSplits_splits:
  "kmSplitTimes (recordSplits k hi r)
     = kmSplitTimes r @ replicate (nat (hi + 1 - k)) (totalElapsed r)"
proof (induction k hi r rule: recordSplits.induct)
  case (1 k hi r)
  show ?case
  proof (cases "k \<le> hi")
    case True
    then have n: "nat (hi + 1 - k) = Suc (nat (hi + 1 - (k + 1)))"
      by simp
    have "kmSplitTimes (recordSplits k hi r) = kmSplitTimes (recordSplits (k + 1) hi (splitBody k r))"
      using True by (subst recordSplits.simps) simp
    also have "\<dots> = (kmSplitTimes r @ [totalElapsed r])
        @ replicate (nat (hi + 1 - (k + 1))) (totalElapsed r)"
      using "1.IH" [OF True] by (simp add: splitBody_fields)
    also have "\<dots> = kmSplitTimes r @ replicate (nat (hi + 1 - k)) (totalElapsed r)"
      by (simp only: n append_assoc replicate_Suc append_Cons append_Nil)
    finally show ?thesis .
  next
    case False
    then show ?thesis by (subst recordSplits.simps) simp
  qed
qed

lemma recordSplits_last:
  "lastKmReached (recordSplits k hi r) = (if k \<le> hi then hi else lastKmReached r)"
proof (induction k hi r rule: recordSplits.induct)
  case (1 k hi r)
  show ?case
  proof (cases "k \<le> hi")
    case True
    have "lastKmReached (recordSplits k hi r)
        = lastKmReached (recordSplits (k + 1) hi (splitBody k r))"
      using True by (subst recordSplits.simps) simp
    also have "\<dots> = (if k + 1 \<le> hi then hi else k)"
      using "1.IH" [OF True] by (simp add: splitBody_fields)
    also have "\<dots> = hi" using True by simp
    finally show ?thesis using True by simp
  next
    case False
    then show ?thesis by (subst recordSplits.simps) simp
  qed
qed

lemma backfillSplits_kept:
  "totalElapsed (backfillSplits len r) = totalElapsed r
   \<and> startTime (backfillSplits len r) = startTime r
   \<and> active (backfillSplits len r) = active r
   \<and> finished (backfillSplits len r) = finished r
   \<and> lastKmReached (backfillSplits len r) = lastKmReached r"
proof (induction len r rule: backfillSplits.induct)
  case (1 len r)
  show ?case
  proof (cases "int (length (kmSplitTimes r)) < len")
    case True
    with "1.IH" show ?thesis
      by (subst (1 2 3 4 5) backfillSplits.simps) simp
  next
    case False
    then show ?thesis by (subst (1 2 3 4 5) backfillSplits.simps) simp
  qed
qed

lemma backfillSplits_splits:
  "kmSplitTimes (backfillSplits len r)
     = kmSplitTimes r @ replicate (nat (len - int (length (kmSplitTimes r)))) (totalElapsed r)"
proof (induction len r rule: backfillSplits.induct)
  case (1 len r)
  show ?case
  proof (cases "int (length (kmSplitTimes r)) < len")
    case True
    let ?r = "r\<lparr>kmSplitTimes := kmSplitTimes r @ [totalElapsed r]\<rparr>"
    from True have n: "nat (len - int (length (kmSplitTimes r)))
        = Suc (nat (len - int (length (kmSplitTimes ?r))))"
      by simp
    have "kmSplitTimes (backfillSplits len r) = kmSplitTimes (backfillSplits len ?r)"
      using True by (subst backfillSplits.simps) simp
    also have "\<dots> = (kmSplitTimes r @ [totalElapsed r])
        @ replicate (nat (len - int (length (kmSplitTimes ?r)))) (totalElapsed r)"
      using "1.IH" [OF True] by simp
    also have "\<dots> = kmSplitTimes r
        @ replicate (nat (len - int (length (kmSplitTimes r)))) (totalElapsed r)"
      by (simp only: n append_assoc replicate_Suc append_Cons append_Nil)
    finally show ?thesis .
  next
    case False
    then show ?thesis by (subst backfillSplits.simps) simp
  qed
qed


section \<open>One race update\<close>

lemma updateRaceFor_idle:
  "\<not> active (race w) \<Longrightarrow> \<not> (gameState w = Riding \<and> \<not> finished (race w)) \<Longrightarrow>
   updateRaceFor len dt t w = w"
  by (auto simp add: updateRaceFor_def Let_def)

lemma updateRaceFor_start:
  "gameState w = Riding \<Longrightarrow> \<not> active (race w) \<Longrightarrow> \<not> finished (race w) \<Longrightarrow>
   updateRaceFor len dt t w = updateRaceFor len dt t (w\<lparr>race := startRace t\<rparr>)"
  by (simp add: updateRaceFor_def startRace_def)

lemma updateRaceFor_active:
  assumes "active (race w)"
  shows "kmSplitTimes (race (updateRaceFor len dt t w))
      = (kmSplitTimes (race w)
          @ replicate (nat (min \<lfloor>downwindDist (foilState w) / 1000\<rfloor> len - lastKmReached (race w)))
              (t - startTime (race w)))
        @ (if downwindDist (foilState w) \<ge> of_int len * 1000
           then replicate
                  (nat (len - int (length (kmSplitTimes (race w)
                     @ replicate (nat (min \<lfloor>downwindDist (foilState w) / 1000\<rfloor> len
                                       - lastKmReached (race w)))
                         (t - startTime (race w))))))
                  (t - startTime (race w))
           else [])"
    and "lastKmReached (race (updateRaceFor len dt t w))
      = (if lastKmReached (race w) + 1 \<le> min \<lfloor>downwindDist (foilState w) / 1000\<rfloor> len
         then min \<lfloor>downwindDist (foilState w) / 1000\<rfloor> len else lastKmReached (race w))"
    and "startTime (race (updateRaceFor len dt t w)) = startTime (race w)"
    and "finished (race (updateRaceFor len dt t w))
      \<longleftrightarrow> finished (race w) \<or> downwindDist (foilState w) \<ge> of_int len * 1000"
    and "active (race (updateRaceFor len dt t w))
      \<longleftrightarrow> \<not> downwindDist (foilState w) \<ge> of_int len * 1000 \<and> gameState w \<noteq> Crashed"
    and "totalElapsed (race (updateRaceFor len dt t w)) = t - startTime (race w)"
  using assms
  by (simp_all add: updateRaceFor_def Let_def recordSplits_splits recordSplits_last
      recordSplits_kept backfillSplits_splits backfillSplits_kept)


lemma sorted_append_replicate:
  fixes e :: real
  assumes "sorted xs" "list_all (\<lambda>x. x \<le> e) xs"
  shows "sorted (xs @ replicate n e)" and "list_all (\<lambda>x. x \<le> e) (xs @ replicate n e)"
  using assms by (auto simp add: sorted_append list_all_iff)

lemma length_after_splits:
  fixes k hi :: int
  shows "int n = k \<Longrightarrow> int (n + nat (hi - k)) = (if k + 1 \<le> hi then hi else k)"
  by auto

lemma list_all_le_mono:
  fixes a b :: real
  shows "list_all (\<lambda>x. x \<le> a) xs \<Longrightarrow> a \<le> b \<Longrightarrow> list_all (\<lambda>x. x \<le> b) xs"
  by (auto simp add: list_all_iff)

text \<open>
  On an active race whose data satisfy the invariant, the update appends the current
  elapsed time once for every kilometre index from \<^verbatim>\<open>lastKmReached + 1\<close> up to
  \<open>min kmReached len\<close>; the backfill loop of the finish branch then finds nothing to add.
\<close>

lemma updateRaceFor_active_splits:
  assumes act: "active (race w)" and ok: "raceOK len T (race w)"
  shows "kmSplitTimes (race (updateRaceFor len dt t w))
      = kmSplitTimes (race w)
          @ replicate (nat (min \<lfloor>downwindDist (foilState w) / 1000\<rfloor> len - lastKmReached (race w)))
              (t - startTime (race w))"
proof -
  let ?d = "downwindDist (foilState w)"
  let ?n = "nat (min \<lfloor>?d / 1000\<rfloor> len - lastKmReached (race w))"
  from ok have len: "int (length (kmSplitTimes (race w))) = lastKmReached (race w)"
    and le: "lastKmReached (race w) \<le> len"
    by (simp_all add: raceOK_def)
  have "nat (len - int (length (kmSplitTimes (race w) @ replicate ?n (t - startTime (race w))))) = 0"
    if "?d \<ge> of_int len * 1000"
  proof -
    from that have "of_int len \<le> ?d / 1000" by simp
    then have "len \<le> \<lfloor>?d / 1000\<rfloor>" by (simp add: le_floor_iff)
    then have "min \<lfloor>?d / 1000\<rfloor> len = len" by simp
    then show ?thesis using len le by simp
  qed
  then show ?thesis
    by (simp add: updateRaceFor_active(1) [OF act])
qed

lemma updateRaceFor_active_ok:
  assumes act: "active (race w)" and ok: "raceOK len T (race w)" and mono: "T \<le> t"
  shows "raceOK len t (race (updateRaceFor len dt t w))"
proof -
  let ?r = "race w"
  let ?d = "downwindDist (foilState w)"
  let ?hi = "min \<lfloor>?d / 1000\<rfloor> len"
  let ?n = "nat (?hi - lastKmReached ?r)"
  let ?e = "t - startTime ?r"
  from ok have srt: "sorted (kmSplitTimes ?r)"
    and old: "list_all (\<lambda>x. x \<le> T - startTime ?r) (kmSplitTimes ?r)"
    and len: "int (length (kmSplitTimes ?r)) = lastKmReached ?r"
    and le: "lastKmReached ?r \<le> len"
    by (simp_all add: raceOK_def)
  from mono have "T - startTime ?r \<le> ?e" by simp
  with old have old': "list_all (\<lambda>x. x \<le> ?e) (kmSplitTimes ?r)"
    by (rule list_all_le_mono)
  have splits: "kmSplitTimes (race (updateRaceFor len dt t w)) = kmSplitTimes ?r @ replicate ?n ?e"
    using act ok by (rule updateRaceFor_active_splits)
  have "sorted (kmSplitTimes ?r @ replicate ?n ?e)"
    and "list_all (\<lambda>x. x \<le> ?e) (kmSplitTimes ?r @ replicate ?n ?e)"
    using srt old' by (rule sorted_append_replicate)+
  moreover have "int (length (kmSplitTimes ?r @ replicate ?n ?e))
      = lastKmReached (race (updateRaceFor len dt t w))"
    using length_after_splits [OF len, of ?hi]
    by (simp only: updateRaceFor_active(2) [OF act] length_append length_replicate)
  moreover have "lastKmReached (race (updateRaceFor len dt t w)) \<le> len"
    using le by (simp add: updateRaceFor_active(2) [OF act])
  ultimately show ?thesis
    by (simp add: raceOK_def splits updateRaceFor_active(3) [OF act])
qed

lemma raceOK_startRace: "0 \<le> len \<Longrightarrow> raceOK len T (startRace t)"
  by (simp add: raceOK_def startRace_def)

lemma raceOK_resetRace: "0 \<le> len \<Longrightarrow> raceOK len T resetRace"
  by (simp add: raceOK_def resetRace_def)

lemma raceOK_later: "raceOK len T r \<Longrightarrow> T \<le> T' \<Longrightarrow> raceOK len T' r"
  by (auto simp add: raceOK_def list_all_iff)

lemma updateRaceFor_ok:
  assumes len: "0 \<le> len" and ok: "raceOK len T (race w)" and mono: "T \<le> t"
  shows "raceOK len t (race (updateRaceFor len dt t w))"
proof (cases "active (race w)")
  case True
  then show ?thesis using ok mono by (rule updateRaceFor_active_ok)
next
  case idle: False
  show ?thesis
  proof (cases "gameState w = Riding \<and> \<not> finished (race w)")
    case True
    let ?w = "w\<lparr>race := startRace t\<rparr>"
    have "active (race ?w)" by (simp add: startRace_def)
    moreover have "raceOK len t (race ?w)" using len by (simp add: raceOK_startRace)
    ultimately have "raceOK len t (race (updateRaceFor len dt t ?w))"
      by (rule updateRaceFor_active_ok) simp
    then show ?thesis using True idle by (simp add: updateRaceFor_start)
  next
    case False
    with idle have "updateRaceFor len dt t w = w" by (rule updateRaceFor_idle)
    then show ?thesis using ok mono by (simp add: raceOK_later)
  qed
qed


section \<open>The race data over frames\<close>

lemma physicsBody_race: "race (physicsBody dt t w) = race w"
  by (simp add: physicsBody_def Let_def postPump_world pumpStep_world prePump_world)

lemma updatePhysics_race: "race (updatePhysics dt t w) = race w"
  by (simp add: updatePhysics_def crashCheck_world physicsBody_race)

lemma handleKey_race: "race (handleKey e w) = race w \<or> race (handleKey e w) = resetRace"
proof (cases e)
  case (KeyDown k)
  then show ?thesis
    by (cases k) (simp_all add: launchFoil_def resetFoilState_def Let_def)
next
  case (KeyUp k)
  then show ?thesis by (cases k) simp_all
qed

lemma handleKeys_raceOK:
  "0 \<le> len \<Longrightarrow> raceOK len T (race w) \<Longrightarrow>
   raceOK len T (race (foldl (\<lambda>v e. handleKey e v) w es))"
proof (induction es arbitrary: w)
  case Nil
  then show ?case by simp
next
  case (Cons e es)
  from handleKey_race [of e w] Cons.prems have "raceOK len T (race (handleKey e w))"
    by (auto simp add: raceOK_resetRace)
  with Cons.IH [of "handleKey e w"] Cons.prems(1) show ?case by simp
qed

lemma runFrame_raceOK:
  assumes "raceOK RACE_LENGTH_KM T (race w)" "T \<le> frameTime fr"
  shows "raceOK RACE_LENGTH_KM (frameTime fr) (race (runFrame w fr))"
proof -
  let ?v = "foldl (\<lambda>v e. handleKey e v) w (frameKeys fr)"
  have len: "0 \<le> RACE_LENGTH_KM" by (simp add: RACE_LENGTH_KM_def)
  have "raceOK RACE_LENGTH_KM T (race ?v)"
    using len assms(1) by (rule handleKeys_raceOK)
  then have "raceOK RACE_LENGTH_KM T (race (updatePhysics (frameDt fr) (frameTime fr) ?v))"
    by (simp add: updatePhysics_race)
  from updateRaceFor_ok [OF len this assms(2)] show ?thesis
    by (simp add: runFrame_def animate_def updateRace_def)
qed

lemma runFrames_raceOK:
  "raceOK RACE_LENGTH_KM T (race w) \<Longrightarrow> sorted (T # map frameTime frs) \<Longrightarrow>
   raceOK RACE_LENGTH_KM (last (T # map frameTime frs)) (race (runFrames w frs))"
proof (induction frs arbitrary: w T)
  case Nil
  then show ?case by (simp add: runFrames_def)
next
  case (Cons fr frs)
  from Cons.prems(2) have le: "T \<le> frameTime fr" and rest: "sorted (frameTime fr # map frameTime frs)"
    by simp_all
  from runFrame_raceOK [OF Cons.prems(1) le]
  have "raceOK RACE_LENGTH_KM (frameTime fr) (race (runFrame w fr))" .
  from Cons.IH [OF this rest] show ?case
    by (simp add: runFrames_def)
qed

lemma runFrames_sorted_splits:
  assumes "sorted (map frameTime frs)"
  shows "sorted (kmSplitTimes (race (runFrames initialWorld frs)))"
proof -
  define T where "T = (case frs of [] \<Rightarrow> 0 | fr # _ \<Rightarrow> frameTime fr)"
  have "raceOK RACE_LENGTH_KM T (race initialWorld)"
    by (simp add: initialWorld_def raceOK_resetRace RACE_LENGTH_KM_def)
  moreover have "sorted (T # map frameTime frs)"
    using assms by (cases frs) (simp_all add: T_def)
  ultimately have "raceOK RACE_LENGTH_KM (last (T # map frameTime frs))
      (race (runFrames initialWorld frs))"
    by (rule runFrames_raceOK)
  then show ?thesis by (simp add: raceOK_def)
qed

section \<open>Splits are sorted and recorded once\<close>

lemma km_reached_iff:
  fixes d :: real and k :: int
  shows "k \<le> \<lfloor>d / 1000\<rfloor> \<longleftrightarrow> of_int k * 1000 \<le> d"
  by (simp add: le_floor_iff pos_le_divide_eq)

lemma recorded_iff:
  fixes k len km n0 :: int
  assumes "k \<le> len" "n0 \<le> len"
  shows "k \<le> n0 + int (nat (min km len - n0)) \<longleftrightarrow> k \<le> n0 \<or> k \<le> km"
  using assms by auto

section \<open>A run of race updates\<close>

lemma updateRaceFor_keeps_recorded:
  assumes ok: "raceOK len T (race w)" and "\<not> (gameState w = Riding \<and> \<not> active (race w) \<and> \<not> finished (race w))"
    and m: "m < length (kmSplitTimes (race w))"
  shows "m < length (kmSplitTimes (race (updateRaceFor len dt t w)))
    \<and> kmSplitTimes (race (updateRaceFor len dt t w)) ! m = kmSplitTimes (race w) ! m
    \<and> startTime (race (updateRaceFor len dt t w)) = startTime (race w)"
proof (cases "active (race w)")
  case True
  from updateRaceFor_active_splits [OF True ok, of dt t] updateRaceFor_active(3) [OF True, of len dt t] m
  show ?thesis by (simp add: nth_append)
next
  case False
  with assms(2) have "updateRaceFor len dt t w = w" by (simp add: updateRaceFor_idle)
  with m show ?thesis by simp
qed

lemma raceAfter_keeps_recorded:
  "0 \<le> len \<Longrightarrow> raceOK len T r \<Longrightarrow> sorted (T # map callTime cs) \<Longrightarrow> raceRun len r cs \<Longrightarrow>
   list_all (\<lambda>c. \<not> startsRace c) cs \<Longrightarrow> m < length (kmSplitTimes r) \<Longrightarrow>
   m < length (kmSplitTimes (raceAfter len r cs))
   \<and> kmSplitTimes (raceAfter len r cs) ! m = kmSplitTimes r ! m
   \<and> startTime (raceAfter len r cs) = startTime r"
proof (induction cs arbitrary: r T)
  case Nil
  then show ?case by simp
next
  case (Cons c cs)
  let ?w = "callWorld c"
  let ?r = "race (updateRaceFor len (callDt c) (callTime c) ?w)"
  from Cons.prems(4) have rw: "race ?w = r" and run: "raceRun len ?r cs" by simp_all
  from Cons.prems(3) have le: "T \<le> callTime c" and rest: "sorted (callTime c # map callTime cs)"
    by simp_all
  from Cons.prems(5) have ns: "\<not> (gameState ?w = Riding \<and> \<not> active (race ?w) \<and> \<not> finished (race ?w))"
    and nss: "list_all (\<lambda>c. \<not> startsRace c) cs"
    by (simp_all add: startsRace_def)
  have ok: "raceOK len T (race ?w)" using Cons.prems(2) rw by simp
  have ok': "raceOK len (callTime c) ?r"
    using Cons.prems(1) ok le by (rule updateRaceFor_ok)
  from Cons.prems(6) rw have m: "m < length (kmSplitTimes (race ?w))" by simp
  from updateRaceFor_keeps_recorded [OF ok ns m, of "callDt c" "callTime c"]
  have keep: "m < length (kmSplitTimes ?r)" "kmSplitTimes ?r ! m = kmSplitTimes r ! m"
    "startTime ?r = startTime r"
    using rw by simp_all
  from Cons.IH [OF Cons.prems(1) ok' rest run nss keep(1)] keep(2,3)
  show ?case by simp
qed

lemma updateRaceFor_not_reached:
  assumes act: "active (race w)" and ok: "raceOK len T (race w)"
    and k: "k \<le> len" "int (length (kmSplitTimes (race w))) < k"
    and d: "downwindDist (foilState w) < of_int k * 1000" and gs: "gameState w \<noteq> Crashed"
  shows "active (race (updateRaceFor len dt t w))
    \<and> int (length (kmSplitTimes (race (updateRaceFor len dt t w)))) < k
    \<and> startTime (race (updateRaceFor len dt t w)) = startTime (race w)"
proof -
  let ?d = "downwindDist (foilState w)"
  from ok have n0: "int (length (kmSplitTimes (race w))) = lastKmReached (race w)"
    and n0le: "lastKmReached (race w) \<le> len"
    by (simp_all add: raceOK_def)
  from k(1) have "(of_int k :: real) * 1000 \<le> of_int len * 1000" by simp
  with d have "?d < of_int len * 1000" by linarith
  then have a: "active (race (updateRaceFor len dt t w))"
    using gs by (simp add: updateRaceFor_active(5) [OF act])
  from d have "\<not> k \<le> \<lfloor>?d / 1000\<rfloor>" by (simp add: km_reached_iff)
  then have "int (length (kmSplitTimes (race w)))
      + int (nat (min \<lfloor>?d / 1000\<rfloor> len - lastKmReached (race w))) < k"
    using k(2) n0 by linarith
  then have "int (length (kmSplitTimes (race (updateRaceFor len dt t w)))) < k"
    by (simp add: updateRaceFor_active_splits [OF act ok])
  with a updateRaceFor_active(3) [OF act, of len dt t] show ?thesis by simp
qed

lemma updateRaceFor_reached:
  assumes act: "active (race w)" and ok: "raceOK len T (race w)"
    and k: "k \<le> len" "int (length (kmSplitTimes (race w))) < k"
    and d: "of_int k * 1000 \<le> downwindDist (foilState w)"
  shows "nat (k - 1) < length (kmSplitTimes (race (updateRaceFor len dt t w)))
    \<and> kmSplitTimes (race (updateRaceFor len dt t w)) ! nat (k - 1) = t - startTime (race w)
    \<and> startTime (race (updateRaceFor len dt t w)) = startTime (race w)"
proof -
  let ?d = "downwindDist (foilState w)"
  let ?n = "nat (min \<lfloor>?d / 1000\<rfloor> len - lastKmReached (race w))"
  from ok have n0: "int (length (kmSplitTimes (race w))) = lastKmReached (race w)"
    by (simp add: raceOK_def)
  from d have "k \<le> \<lfloor>?d / 1000\<rfloor>" by (simp add: km_reached_iff)
  with k n0 have "length (kmSplitTimes (race w)) \<le> nat (k - 1)"
    "nat (k - 1) - length (kmSplitTimes (race w)) < ?n"
    by linarith+
  then show ?thesis
    using updateRaceFor_active(3) [OF act, of len dt t]
    by (simp add: updateRaceFor_active_splits [OF act ok] nth_append)
qed

lemma split_recorded_at_first_crossing:
  "0 \<le> len \<Longrightarrow> raceOK len T r \<Longrightarrow> active r \<Longrightarrow>
   sorted (T # map callTime (pre @ c # post)) \<Longrightarrow> raceRun len r (pre @ c # post) \<Longrightarrow>
   k \<le> len \<Longrightarrow> int (length (kmSplitTimes r)) < k \<Longrightarrow>
   list_all (\<lambda>b. callDist b < of_int k * 1000 \<and> gameState (callWorld b) \<noteq> Crashed) pre \<Longrightarrow>
   of_int k * 1000 \<le> callDist c \<Longrightarrow>
   list_all (\<lambda>a. \<not> startsRace a) post \<Longrightarrow>
   int (length (kmSplitTimes (raceAfter len r pre))) < k
   \<and> kmSplitTimes (raceAfter len r (pre @ c # post)) ! nat (k - 1) = callTime c - startTime r"
proof (induction pre arbitrary: r T)
  case Nil
  let ?w = "callWorld c"
  let ?r = "race (updateRaceFor len (callDt c) (callTime c) ?w)"
  from Nil.prems(5) have rw: "race ?w = r" and run: "raceRun len ?r post" by simp_all
  from Nil.prems(4) have le: "T \<le> callTime c" and rest: "sorted (callTime c # map callTime post)"
    by simp_all
  have ok: "raceOK len T (race ?w)" and act: "active (race ?w)"
    using Nil.prems(2,3) rw by simp_all
  have ok': "raceOK len (callTime c) ?r"
    using Nil.prems(1) ok le by (rule updateRaceFor_ok)
  from Nil.prems(7) rw have fresh: "int (length (kmSplitTimes (race ?w))) < k" by simp
  from Nil.prems(9) have d: "of_int k * 1000 \<le> downwindDist (foilState ?w)"
    by (simp add: callDist_def)
  from updateRaceFor_reached [OF act ok Nil.prems(6) fresh d, of "callDt c" "callTime c"]
  have now: "nat (k - 1) < length (kmSplitTimes ?r)"
    "kmSplitTimes ?r ! nat (k - 1) = callTime c - startTime r"
    using rw by simp_all
  from raceAfter_keeps_recorded [OF Nil.prems(1) ok' rest run Nil.prems(10) now(1)] now(2)
    Nil.prems(7)
  show ?case by simp
next
  case (Cons b pre)
  let ?w = "callWorld b"
  let ?r = "race (updateRaceFor len (callDt b) (callTime b) ?w)"
  from Cons.prems(5) have rw: "race ?w = r" and run: "raceRun len ?r (pre @ c # post)"
    by simp_all
  from Cons.prems(4) have le: "T \<le> callTime b"
    and rest: "sorted (callTime b # map callTime (pre @ c # post))"
    by simp_all
  have ok: "raceOK len T (race ?w)" and act: "active (race ?w)"
    using Cons.prems(2,3) rw by simp_all
  have ok': "raceOK len (callTime b) ?r"
    using Cons.prems(1) ok le by (rule updateRaceFor_ok)
  from Cons.prems(7) rw have fresh: "int (length (kmSplitTimes (race ?w))) < k" by simp
  from Cons.prems(8) have d: "downwindDist (foilState ?w) < of_int k * 1000"
    and gs: "gameState ?w \<noteq> Crashed"
    and quiet: "list_all (\<lambda>b. callDist b < of_int k * 1000 \<and> gameState (callWorld b) \<noteq> Crashed) pre"
    by (simp_all add: callDist_def)
  from updateRaceFor_not_reached [OF act ok Cons.prems(6) fresh d gs, of "callDt b" "callTime b"]
  have later: "active ?r" "int (length (kmSplitTimes ?r)) < k" "startTime ?r = startTime r"
    using rw by simp_all
  from Cons.IH [OF Cons.prems(1) ok' later(1) rest run Cons.prems(6) later(2) quiet
      Cons.prems(9,10)] later(3)
  show ?case by simp
qed

text \<open>
  C5.  Let the race data satisfy the invariant at a time \<open>T\<close> no later than the time of
  this update.  Then after the update they satisfy it again; in particular the splits are
  sorted.  If the race is active, the update keeps the recorded splits and appends copies
  of the current elapsed time; the split of a kilometre index \<open>k\<close> between 1 and \<open>len\<close>
  is present afterwards exactly if it was present before or the downwind distance is at
  least \<open>k \<cdot> 1000\<close>, a split recorded earlier is unchanged, and a split recorded now is the
  current elapsed time.  A race that starts in this update does so with no splits and is
  then updated as an active one; an idle race is unchanged.  Over any frames with
  non-decreasing times from the initial world, the splits are sorted.

  Over a run of updates of one active race (\<open>pre\<close>, then the call \<open>c\<close>, then \<open>post\<close>):
  if \<open>c\<close> is the first call with a downwind distance of at least \<open>k \<cdot> 1000\<close>, no crash
  having ended the race before it, then the split of \<open>k\<close> is not recorded before \<open>c\<close>, and
  at the end of the run, as long as no new race is started, it is the elapsed time of
  \<open>c\<close>.
\<close>

theorem C5_splits_sorted_and_recorded_once:
  "1 \<le> len \<and> raceOK len T (race w) \<and> T \<le> time \<Longrightarrow>
   (let w' = updateRaceFor len dt time w;
        d = downwindDist (foilState w);
        old = kmSplitTimes (race w);
        new = kmSplitTimes (race w')
    in raceOK len time (race w')
       \<and> sorted new
       \<and> (active (race w) \<longrightarrow>
            (\<exists>n. new = old @ replicate n (time - startTime (race w)))
            \<and> (\<forall>k. 1 \<le> k \<and> k \<le> len \<longrightarrow>
                  (k \<le> int (length new) \<longleftrightarrow> k \<le> int (length old) \<or> of_int k * 1000 \<le> d))
            \<and> (\<forall>k. 1 \<le> k \<and> k \<le> int (length old) \<longrightarrow> new ! nat (k - 1) = old ! nat (k - 1))
            \<and> (\<forall>k. int (length old) < k \<and> k \<le> len \<and> of_int k * 1000 \<le> d \<longrightarrow>
                  new ! nat (k - 1) = time - startTime (race w)))
       \<and> (\<not> active (race w) \<and> gameState w = Riding \<and> \<not> finished (race w) \<longrightarrow>
            w' = updateRaceFor len dt time (w\<lparr>race := startRace time\<rparr>)
            \<and> active (startRace time) \<and> kmSplitTimes (startRace time) = []
            \<and> raceOK len time (startRace time))
       \<and> (\<not> active (race w) \<and> \<not> (gameState w = Riding \<and> \<not> finished (race w)) \<longrightarrow> w' = w))
   \<and> updateRace dt time w = updateRaceFor RACE_LENGTH_KM dt time w
   \<and> (sorted (map frameTime frs) \<longrightarrow> sorted (kmSplitTimes (race (runFrames initialWorld frs))))
   \<and> (raceOK len Ts r \<and> active r
        \<and> sorted (Ts # map callTime (pre @ c # post)) \<and> raceRun len r (pre @ c # post)
        \<and> k \<le> len \<and> int (length (kmSplitTimes r)) < k
        \<and> list_all (\<lambda>b. callDist b < of_int k * 1000 \<and> gameState (callWorld b) \<noteq> Crashed) pre
        \<and> of_int k * 1000 \<le> callDist c
        \<and> list_all (\<lambda>a. \<not> startsRace a) post \<longrightarrow>
        int (length (kmSplitTimes (raceAfter len r pre))) < k
        \<and> kmSplitTimes (raceAfter len r (pre @ c # post)) ! nat (k - 1) = callTime c - startTime r)"
proof -
  assume a: "1 \<le> len \<and> raceOK len T (race w) \<and> T \<le> time"
  then have len: "0 \<le> len" and ok: "raceOK len T (race w)" and mono: "T \<le> time"
    by simp_all
  define w' where "w' = updateRaceFor len dt time w"
  define d where "d = downwindDist (foilState w)"
  define old where "old = kmSplitTimes (race w)"
  define new where "new = kmSplitTimes (race w')"
  define e where "e = time - startTime (race w)"
  have ok': "raceOK len time (race w')"
    unfolding w'_def using len ok mono by (rule updateRaceFor_ok)
  then have srt: "sorted new" by (simp add: raceOK_def new_def)
  from ok have n0: "int (length old) = lastKmReached (race w)" and n0le: "int (length old) \<le> len"
    by (simp_all add: raceOK_def old_def)
  have act: "(\<exists>n. new = old @ replicate n e)
      \<and> (\<forall>k. 1 \<le> k \<and> k \<le> len \<longrightarrow>
            (k \<le> int (length new) \<longleftrightarrow> k \<le> int (length old) \<or> of_int k * 1000 \<le> d))
      \<and> (\<forall>k. 1 \<le> k \<and> k \<le> int (length old) \<longrightarrow> new ! nat (k - 1) = old ! nat (k - 1))
      \<and> (\<forall>k. int (length old) < k \<and> k \<le> len \<and> of_int k * 1000 \<le> d \<longrightarrow>
            new ! nat (k - 1) = e)"
    if active: "active (race w)"
  proof -
    define n where "n = nat (min \<lfloor>d / 1000\<rfloor> len - lastKmReached (race w))"
    have new: "new = old @ replicate n e"
      unfolding new_def w'_def old_def n_def e_def d_def using active ok
      by (rule updateRaceFor_active_splits)
    have lnew: "int (length new) = int (length old) + int n"
      by (simp add: new)
    have iff: "k \<le> int (length new) \<longleftrightarrow> k \<le> int (length old) \<or> of_int k * 1000 \<le> d"
      if "k \<le> len" for k
      using recorded_iff [OF that n0le, of "\<lfloor>d / 1000\<rfloor>"]
      by (simp only: lnew n_def n0 [symmetric] km_reached_iff)
    have keep: "new ! nat (k - 1) = old ! nat (k - 1)" if "1 \<le> k" "k \<le> int (length old)" for k
    proof -
      from that have "nat (k - 1) < length old" by linarith
      then show ?thesis by (simp add: new nth_append)
    qed
    have fresh: "new ! nat (k - 1) = e"
      if "int (length old) < k" "k \<le> len" "of_int k * 1000 \<le> d" for k
    proof -
      from iff [OF that(2)] that(3) have "k \<le> int (length new)" by simp
      with that(1) have "length old \<le> nat (k - 1)" "nat (k - 1) - length old < n"
        using lnew by linarith+
      then show ?thesis by (simp add: new nth_append)
    qed
    from new iff keep fresh show ?thesis by blast
  qed
  have start: "w' = updateRaceFor len dt time (w\<lparr>race := startRace time\<rparr>)
      \<and> active (startRace time) \<and> kmSplitTimes (startRace time) = []
      \<and> raceOK len time (startRace time)"
    if "\<not> active (race w)" "gameState w = Riding" "\<not> finished (race w)"
    using that len by (simp add: w'_def updateRaceFor_start raceOK_startRace) (simp add: startRace_def)
  have idle: "w' = w"
    if "\<not> active (race w)" "\<not> (gameState w = Riding \<and> \<not> finished (race w))"
    unfolding w'_def using that by (rule updateRaceFor_idle)
  have sys: "sorted (kmSplitTimes (race (runFrames initialWorld frs)))"
    if "sorted (map frameTime frs)"
    using that by (rule runFrames_sorted_splits)
  have run: "int (length (kmSplitTimes (raceAfter len r pre))) < k
      \<and> kmSplitTimes (raceAfter len r (pre @ c # post)) ! nat (k - 1) = callTime c - startTime r"
    if "raceOK len Ts r" "active r" "sorted (Ts # map callTime (pre @ c # post))"
      "raceRun len r (pre @ c # post)" "k \<le> len" "int (length (kmSplitTimes r)) < k"
      "list_all (\<lambda>b. callDist b < of_int k * 1000 \<and> gameState (callWorld b) \<noteq> Crashed) pre"
      "of_int k * 1000 \<le> callDist c" "list_all (\<lambda>a. \<not> startsRace a) post"
    using len that by (rule split_recorded_at_first_crossing)
  have main: "(raceOK len time (race w')
       \<and> sorted new
       \<and> (active (race w) \<longrightarrow>
            (\<exists>n. new = old @ replicate n e)
            \<and> (\<forall>k. 1 \<le> k \<and> k \<le> len \<longrightarrow>
                  (k \<le> int (length new) \<longleftrightarrow> k \<le> int (length old) \<or> of_int k * 1000 \<le> d))
            \<and> (\<forall>k. 1 \<le> k \<and> k \<le> int (length old) \<longrightarrow> new ! nat (k - 1) = old ! nat (k - 1))
            \<and> (\<forall>k. int (length old) < k \<and> k \<le> len \<and> of_int k * 1000 \<le> d \<longrightarrow>
                  new ! nat (k - 1) = e))
       \<and> (\<not> active (race w) \<and> gameState w = Riding \<and> \<not> finished (race w) \<longrightarrow>
            w' = updateRaceFor len dt time (w\<lparr>race := startRace time\<rparr>)
            \<and> active (startRace time) \<and> kmSplitTimes (startRace time) = []
            \<and> raceOK len time (startRace time))
       \<and> (\<not> active (race w) \<and> \<not> (gameState w = Riding \<and> \<not> finished (race w)) \<longrightarrow> w' = w))
   \<and> updateRace dt time w = updateRaceFor RACE_LENGTH_KM dt time w
   \<and> (sorted (map frameTime frs) \<longrightarrow> sorted (kmSplitTimes (race (runFrames initialWorld frs))))
   \<and> (raceOK len Ts r \<and> active r
        \<and> sorted (Ts # map callTime (pre @ c # post)) \<and> raceRun len r (pre @ c # post)
        \<and> k \<le> len \<and> int (length (kmSplitTimes r)) < k
        \<and> list_all (\<lambda>b. callDist b < of_int k * 1000 \<and> gameState (callWorld b) \<noteq> Crashed) pre
        \<and> of_int k * 1000 \<le> callDist c
        \<and> list_all (\<lambda>a. \<not> startsRace a) post \<longrightarrow>
        int (length (kmSplitTimes (raceAfter len r pre))) < k
        \<and> kmSplitTimes (raceAfter len r (pre @ c # post)) ! nat (k - 1) = callTime c - startTime r)"
    using ok' srt act start idle sys run by (simp only: updateRace_def) blast
  from main show ?thesis
    unfolding Let_def w'_def d_def old_def new_def e_def .
qed


theorem C5_witness:
  "(1::int) \<le> 2
   \<and> raceOK 2 5 (race (initialWorld\<lparr>gameState := Riding, race := startRace 0,
        foilState := spawnFoilState\<lparr>position := V3 0 0 300\<rparr>\<rparr>))
   \<and> (5::real) \<le> 6
   \<and> active (race (initialWorld\<lparr>gameState := Riding, race := startRace 0,
        foilState := spawnFoilState\<lparr>position := V3 0 0 300\<rparr>\<rparr>))
   \<and> (1::real) * 1000 \<le> downwindDist (foilState (initialWorld\<lparr>gameState := Riding,
        race := startRace 0, foilState := spawnFoilState\<lparr>position := V3 0 0 300\<rparr>\<rparr>))
   \<and> sorted (kmSplitTimes (race (updateRaceFor 2 (1 / 60) 6
        (initialWorld\<lparr>gameState := Riding, race := startRace 0,
           foilState := spawnFoilState\<lparr>position := V3 0 0 300\<rparr>\<rparr>))))
   \<and> kmSplitTimes (race (updateRaceFor 2 (1 / 60) 6
        (initialWorld\<lparr>gameState := Riding, race := startRace 0,
           foilState := spawnFoilState\<lparr>position := V3 0 0 300\<rparr>\<rparr>))) ! 0 = 6
   \<and> int (length (kmSplitTimes (race (updateRaceFor 2 (1 / 60) 6
        (initialWorld\<lparr>gameState := Riding, race := startRace 0,
           foilState := spawnFoilState\<lparr>position := V3 0 0 300\<rparr>\<rparr>))))) < 2
   \<and> raceOK 2 0 (startRace 0) \<and> active (startRace 0)
   \<and> sorted (0 # map callTime
        ([\<lparr>callDt = 1 / 60, callTime = 5,
           callWorld = initialWorld\<lparr>gameState := Riding, race := startRace 0,
             foilState := spawnFoilState\<lparr>position := V3 0 0 (- 100)\<rparr>\<rparr>\<rparr>]
         @ \<lparr>callDt = 1 / 60, callTime = 6,
            callWorld = (updateRaceFor 2 (1 / 60) 5
              (initialWorld\<lparr>gameState := Riding, race := startRace 0,
                 foilState := spawnFoilState\<lparr>position := V3 0 0 (- 100)\<rparr>\<rparr>))
              \<lparr>foilState := spawnFoilState\<lparr>position := V3 0 0 300\<rparr>\<rparr>\<rparr> # []))
   \<and> raceRun 2 (startRace 0)
        ([\<lparr>callDt = 1 / 60, callTime = 5,
           callWorld = initialWorld\<lparr>gameState := Riding, race := startRace 0,
             foilState := spawnFoilState\<lparr>position := V3 0 0 (- 100)\<rparr>\<rparr>\<rparr>]
         @ \<lparr>callDt = 1 / 60, callTime = 6,
            callWorld = (updateRaceFor 2 (1 / 60) 5
              (initialWorld\<lparr>gameState := Riding, race := startRace 0,
                 foilState := spawnFoilState\<lparr>position := V3 0 0 (- 100)\<rparr>\<rparr>))
              \<lparr>foilState := spawnFoilState\<lparr>position := V3 0 0 300\<rparr>\<rparr>\<rparr> # [])
   \<and> int (length (kmSplitTimes (startRace 0))) < 1
   \<and> list_all (\<lambda>b. callDist b < of_int 1 * 1000 \<and> gameState (callWorld b) \<noteq> Crashed)
        [\<lparr>callDt = 1 / 60, callTime = 5,
          callWorld = initialWorld\<lparr>gameState := Riding, race := startRace 0,
            foilState := spawnFoilState\<lparr>position := V3 0 0 (- 100)\<rparr>\<rparr>\<rparr>]
   \<and> of_int 1 * 1000 \<le> callDist
        \<lparr>callDt = 1 / 60, callTime = 6,
         callWorld = (updateRaceFor 2 (1 / 60) 5
           (initialWorld\<lparr>gameState := Riding, race := startRace 0,
              foilState := spawnFoilState\<lparr>position := V3 0 0 (- 100)\<rparr>\<rparr>))
           \<lparr>foilState := spawnFoilState\<lparr>position := V3 0 0 300\<rparr>\<rparr>\<rparr>
   \<and> list_all (\<lambda>a. \<not> startsRace a) []
   \<and> kmSplitTimes (raceAfter 2 (startRace 0)
        ([\<lparr>callDt = 1 / 60, callTime = 5,
           callWorld = initialWorld\<lparr>gameState := Riding, race := startRace 0,
             foilState := spawnFoilState\<lparr>position := V3 0 0 (- 100)\<rparr>\<rparr>\<rparr>]
         @ \<lparr>callDt = 1 / 60, callTime = 6,
            callWorld = (updateRaceFor 2 (1 / 60) 5
              (initialWorld\<lparr>gameState := Riding, race := startRace 0,
                 foilState := spawnFoilState\<lparr>position := V3 0 0 (- 100)\<rparr>\<rparr>))
              \<lparr>foilState := spawnFoilState\<lparr>position := V3 0 0 300\<rparr>\<rparr>\<rparr> # [])) ! nat (1 - 1)
       = 6 - startTime (startRace 0)"
proof -
  define w where "w = initialWorld\<lparr>gameState := Riding, race := startRace 0,
        foilState := spawnFoilState\<lparr>position := V3 0 0 300\<rparr>\<rparr>"
  define wb where "wb = initialWorld\<lparr>gameState := Riding, race := startRace 0,
        foilState := spawnFoilState\<lparr>position := V3 0 0 (- 100)\<rparr>\<rparr>"
  define b where "b = \<lparr>callDt = 1 / 60, callTime = 5, callWorld = wb\<rparr>"
  define c where "c = \<lparr>callDt = 1 / 60, callTime = 6,
      callWorld = (updateRaceFor 2 (1 / 60) 5 wb)\<lparr>foilState := spawnFoilState\<lparr>position := V3 0 0 300\<rparr>\<rparr>\<rparr>"
  have r: "race w = startRace 0" and d: "downwindDist (foilState w) = 1100"
    by (simp_all add: w_def downwindDist_def RACE_START_Z_def SPAWN_POINT_def V3_def)
  have h: "(1::int) \<le> 2 \<and> raceOK 2 5 (race w) \<and> (5::real) \<le> 6"
    by (simp add: r raceOK_def startRace_def)
  have act: "active (race w)" and st: "startTime (race w) = 0"
    and old: "kmSplitTimes (race w) = []"
    by (simp_all add: r startRace_def)
  have g1: "raceOK 2 0 (startRace 0)" and g2: "active (startRace 0)"
    and g3: "sorted (0 # map callTime ([b] @ c # []))"
    and g5: "int (length (kmSplitTimes (startRace 0))) < 1"
    and g8: "list_all (\<lambda>a. \<not> startsRace a) []"
    by (simp_all add: raceOK_def startRace_def b_def c_def)
  have g4: "raceRun 2 (startRace 0) ([b] @ c # [])"
    by (simp add: b_def c_def wb_def)
  have g6: "list_all (\<lambda>b. callDist b < of_int 1 * 1000 \<and> gameState (callWorld b) \<noteq> Crashed) [b]"
    by (simp add: b_def wb_def callDist_def downwindDist_def RACE_START_Z_def SPAWN_POINT_def
        V3_def)
  have g7: "of_int 1 * 1000 \<le> callDist c"
    by (simp add: c_def callDist_def downwindDist_def RACE_START_Z_def SPAWN_POINT_def V3_def)
  note T = C5_splits_sorted_and_recorded_once [OF h, where dt = "1 / 60" and frs = "[]"
      and Ts = 0 and r = "startRace 0" and pre = "[b]" and c = c and post = "[]" and k = 1,
      unfolded Let_def]
  from T have srt: "sorted (kmSplitTimes (race (updateRaceFor 2 (1 / 60) 6 w)))"
    by blast
  from T act have iff: "\<forall>k. 1 \<le> k \<and> k \<le> 2 \<longrightarrow>
      (k \<le> int (length (kmSplitTimes (race (updateRaceFor 2 (1 / 60) 6 w))))
        \<longleftrightarrow> k \<le> int (length (kmSplitTimes (race w)))
            \<or> of_int k * 1000 \<le> downwindDist (foilState w))"
    by blast
  from T act have fresh: "\<forall>k. int (length (kmSplitTimes (race w))) < k \<and> k \<le> 2
        \<and> of_int k * 1000 \<le> downwindDist (foilState w) \<longrightarrow>
      kmSplitTimes (race (updateRaceFor 2 (1 / 60) 6 w)) ! nat (k - 1) = 6 - startTime (race w)"
    by blast
  from T g1 g2 g3 g4 g5 g6 g7 g8
  have run: "kmSplitTimes (raceAfter 2 (startRace 0) ([b] @ c # [])) ! nat (1 - 1)
      = callTime c - startTime (startRace 0)"
    by simp
  from fresh [rule_format, of 1]
  have one: "kmSplitTimes (race (updateRaceFor 2 (1 / 60) 6 w)) ! 0 = 6"
    by (simp add: old d st)
  from iff [rule_format, of 2]
  have two: "int (length (kmSplitTimes (race (updateRaceFor 2 (1 / 60) 6 w)))) < 2"
    by (simp add: old d)
  have ct: "callTime c = 6" by (simp add: c_def)
  have "(1::int) \<le> 2 \<and> raceOK 2 5 (race w) \<and> (5::real) \<le> 6 \<and> active (race w)
     \<and> (1::real) * 1000 \<le> downwindDist (foilState w)
     \<and> sorted (kmSplitTimes (race (updateRaceFor 2 (1 / 60) 6 w)))
     \<and> kmSplitTimes (race (updateRaceFor 2 (1 / 60) 6 w)) ! 0 = 6
     \<and> int (length (kmSplitTimes (race (updateRaceFor 2 (1 / 60) 6 w)))) < 2
     \<and> raceOK 2 0 (startRace 0) \<and> active (startRace 0)
     \<and> sorted (0 # map callTime ([b] @ c # []))
     \<and> raceRun 2 (startRace 0) ([b] @ c # [])
     \<and> int (length (kmSplitTimes (startRace 0))) < 1
     \<and> list_all (\<lambda>b. callDist b < of_int 1 * 1000 \<and> gameState (callWorld b) \<noteq> Crashed) [b]
     \<and> of_int 1 * 1000 \<le> callDist c
     \<and> list_all (\<lambda>a. \<not> startsRace a) []
     \<and> kmSplitTimes (raceAfter 2 (startRace 0) ([b] @ c # [])) ! nat (1 - 1)
         = 6 - startTime (startRace 0)"
    using h act srt one two g1 g2 g3 g4 g5 g6 g7 g8 run
    by (simp only: d ct simp_thms)
  then show ?thesis unfolding w_def b_def c_def wb_def .
qed


section \<open>A crash during the race\<close>

lemma updateRaceFor_finished_only_by_distance:
  assumes "\<not> finished (race v)" "finished (race (updateRaceFor len dt t v))"
  shows "of_int len * 1000 \<le> downwindDist (foilState v)"
proof (cases "active (race v)")
  case True
  from updateRaceFor_active(4) [OF True, of len dt t] assms show ?thesis by simp
next
  case idle: False
  show ?thesis
  proof (cases "gameState v = Riding")
    case True
    let ?v = "v\<lparr>race := startRace t\<rparr>"
    have a: "active (race ?v)" and f: "\<not> finished (race ?v)"
      by (simp_all add: startRace_def)
    from assms(2) have "finished (race (updateRaceFor len dt t ?v))"
      using True idle assms(1) by (simp add: updateRaceFor_start)
    with updateRaceFor_active(4) [OF a, of len dt t] f show ?thesis by simp
  next
    case False
    with idle have "updateRaceFor len dt t v = v" by (simp add: updateRaceFor_idle)
    with assms show ?thesis by simp
  qed
qed

lemma updateRaceFor_shown:
  "active (race w) \<Longrightarrow>
   raceResultsShown (updateRaceFor len dt t w)
     = (if downwindDist (foilState w) \<ge> of_int len * 1000
        then Suc (raceResultsShown w) else raceResultsShown w)"
  by (simp add: updateRaceFor_def Let_def)

text \<open>
  C6, as the code has it.  When the game state is \<open>Crashed\<close> and the race is active and
  not finished, the race update makes the race inactive.  It leaves it unfinished exactly
  when the downwind distance is below the course length: the finish branch runs before
  the crash branch, so a rider who has reached the course distance at that update is
  recorded as finished and the results are shown.  In every update, a race becomes
  finished only with the downwind distance at or beyond the course length.
\<close>

theorem C6_crash_ends_race_finish_first:
  "gameState w = Crashed \<and> active (race w) \<and> \<not> finished (race w) \<Longrightarrow>
   \<not> active (race (updateRaceFor len dt t w))
   \<and> (finished (race (updateRaceFor len dt t w))
        \<longleftrightarrow> of_int len * 1000 \<le> downwindDist (foilState w))
   \<and> raceResultsShown (updateRaceFor len dt t w)
        = (if of_int len * 1000 \<le> downwindDist (foilState w)
           then Suc (raceResultsShown w) else raceResultsShown w)
   \<and> (\<forall>v. \<not> finished (race v) \<and> finished (race (updateRaceFor len dt t v)) \<longrightarrow>
          of_int len * 1000 \<le> downwindDist (foilState v))
   \<and> updateRace dt t w = updateRaceFor RACE_LENGTH_KM dt t w"
proof -
  assume a: "gameState w = Crashed \<and> active (race w) \<and> \<not> finished (race w)"
  then have act: "active (race w)" by simp
  from a updateRaceFor_active(4,5) [OF act, of len dt t] updateRaceFor_shown [OF act, of len dt t]
    updateRaceFor_finished_only_by_distance [of _ len dt t]
  show ?thesis
    by (simp only: updateRace_def) blast
qed

theorem C6_witness:
  "gameState (initialWorld\<lparr>gameState := Crashed, race := startRace 0\<rparr>) = Crashed
   \<and> active (race (initialWorld\<lparr>gameState := Crashed, race := startRace 0\<rparr>))
   \<and> \<not> finished (race (initialWorld\<lparr>gameState := Crashed, race := startRace 0\<rparr>))
   \<and> \<not> of_int RACE_LENGTH_KM * 1000
         \<le> downwindDist (foilState (initialWorld\<lparr>gameState := Crashed, race := startRace 0\<rparr>))
   \<and> \<not> active (race (updateRaceFor RACE_LENGTH_KM (1 / 60) 8
         (initialWorld\<lparr>gameState := Crashed, race := startRace 0\<rparr>)))
   \<and> \<not> finished (race (updateRaceFor RACE_LENGTH_KM (1 / 60) 8
         (initialWorld\<lparr>gameState := Crashed, race := startRace 0\<rparr>)))"
proof -
  define w where "w = initialWorld\<lparr>gameState := Crashed, race := startRace 0\<rparr>"
  have h: "gameState w = Crashed \<and> active (race w) \<and> \<not> finished (race w)"
    by (simp add: w_def startRace_def)
  have d: "\<not> of_int RACE_LENGTH_KM * 1000 \<le> downwindDist (foilState w)"
    by (simp add: w_def initialWorld_def spawnFoilState_def downwindDist_def RACE_START_Z_def
        RACE_LENGTH_KM_def)
  from C6_crash_ends_race_finish_first [OF h, of RACE_LENGTH_KM "1 / 60" 8] h d
  have "gameState w = Crashed \<and> active (race w) \<and> \<not> finished (race w)
    \<and> \<not> of_int RACE_LENGTH_KM * 1000 \<le> downwindDist (foilState w)
    \<and> \<not> active (race (updateRaceFor RACE_LENGTH_KM (1 / 60) 8 w))
    \<and> \<not> finished (race (updateRaceFor RACE_LENGTH_KM (1 / 60) 8 w))"
    by blast
  then show ?thesis unfolding w_def .
qed


section \<open>A crash on the frame that crosses the line\<close>

lemma clamp_zero: "lo \<le> 0 \<Longrightarrow> 0 \<le> hi \<Longrightarrow> clamp 0 lo hi = 0"
  by (simp add: clamp_def)

lemma MAX_ROLL_nonneg: "0 \<le> MAX_ROLL"
  by (simp add: MAX_ROLL_def)

lemma prePump_heading_level:
  assumes "paramsWindSpeed w = 0" "roll (foilState w) = 0" "rollRate (foilState w) = 0"
    "\<not> left (input w)" "\<not> right (input w)"
  shows "heading (foilState (fst (prePump dt t w))) = heading (foilState w)"
proof -
  have "roll (rollPitch dt 0 b 0 fs) = 0" if "roll fs = 0" "rollRate fs = 0" for b fs
    using that by (simp add: rollPitch_def Let_def clamp_zero MAX_ROLL_nonneg)
  then have "turning dt foil l s (rollPitch dt 0 b 0 fs) = rollPitch dt 0 b 0 fs"
    if "roll fs = 0" "rollRate fs = 0" for b fs foil l s
    using that by (simp add: turning_def)
  then show ?thesis
    using assms
    by (simp add: prePump_def Let_def sampleWave_calm_tips targetRollOf_def rollPitch_frame)
qed

lemma normalize_z: "0 < z \<Longrightarrow> normalize (V3 0 0 z) = V3 0 0 1"
  by (simp add: normalize_def vlength_z divideScalar_def multiplyScalar_def)
    (simp add: V3_def)

lemma netForce_straight:
  "0.01 < z \<Longrightarrow> netForce (V2 0 0) (V3 0 0 z) z dragMag = V3 0 0 (- dragMag)"
  by (simp add: netForce_def Let_def normalize_z addScaledVector_def) (simp add: V3_def V2_def)

lemma postPump_straight:
  assumes "velocity (foilState w) = V3 0 0 v" "heading (foilState w) = 0"
  shows "velocity (foilState (postPump dt s l (V3 0 0 fz) w)) = V3 0 0 (v + fz / RIDER_MASS * dt)"
    and "vz (position (foilState (postPump dt s l (V3 0 0 fz) w)))
      = vz (position (foilState w)) + (v + fz / RIDER_MASS * dt) * dt"
  using assms
  by (simp_all add: postPump_def Let_def energyRegen_def integrateVelocity_def lateralSlip_def
      integratePosition_def rideHeightStep_def vadd_def multiplyScalar_def addScaledVector_def
      divideScalar_def headingToDir_def V3_def dot_def)

lemma liftMagnitude_below_stall:
  "0 \<le> s \<Longrightarrow> s \<le> stallSpeed foil * 0.7 \<Longrightarrow> 0 < stallSpeed foil \<Longrightarrow> liftMagnitude foil s = 0"
proof -
  assume a: "0 \<le> s" "s \<le> stallSpeed foil * 0.7" "0 < stallSpeed foil"
  then have "(s - stallSpeed foil * 0.7) / (stallSpeed foil * 1.3 - stallSpeed foil * 0.7) \<le> 0"
    by (intro divide_nonpos_pos) simp_all
  then have "smoothstep (stallSpeed foil * 0.7) (stallSpeed foil * 1.3) s = 0"
    by (simp add: smoothstep_def Let_def min_def max_def)
  then show ?thesis by (simp add: liftMagnitude_def liftCoeff_def Let_def)
qed


text \<open>
  The claim C6 as stated fails.  A rider 1 cm before the finish line of the 1 km course,
  at 3 m/s (below the stall speed 7) with the board 5 cm above the water, takes one frame
  of 1/60 s on calm water.  The state is one that the crash check of a previous step lets
  pass, the height being not below 0.05.  The step moves the rider across the line, the
  height sinks below 0.05 and the crash check fires.  The race update of the same frame
  finds the game crashed, the race active, and marks the race finished.
\<close>

theorem C6_counterexample:
  "gameState (initialWorld\<lparr>gameState := Riding, paramsWindSpeed := 0, race := startRace 0,
       foilState := spawnFoilState\<lparr>position := V3 0 0 199.99, velocity := V3 0 0 3,
                                  rideHeight := 0.05\<rparr>\<rparr>) = Riding
   \<and> gameState (updatePhysics (1 / 60) 10
       (initialWorld\<lparr>gameState := Riding, paramsWindSpeed := 0, race := startRace 0,
          foilState := spawnFoilState\<lparr>position := V3 0 0 199.99, velocity := V3 0 0 3,
                                     rideHeight := 0.05\<rparr>\<rparr>)) = Crashed
   \<and> active (race (updatePhysics (1 / 60) 10
       (initialWorld\<lparr>gameState := Riding, paramsWindSpeed := 0, race := startRace 0,
          foilState := spawnFoilState\<lparr>position := V3 0 0 199.99, velocity := V3 0 0 3,
                                     rideHeight := 0.05\<rparr>\<rparr>)))
   \<and> \<not> finished (race (updatePhysics (1 / 60) 10
       (initialWorld\<lparr>gameState := Riding, paramsWindSpeed := 0, race := startRace 0,
          foilState := spawnFoilState\<lparr>position := V3 0 0 199.99, velocity := V3 0 0 3,
                                     rideHeight := 0.05\<rparr>\<rparr>)))
   \<and> finished (race (updateRace (1 / 60) 10 (updatePhysics (1 / 60) 10
       (initialWorld\<lparr>gameState := Riding, paramsWindSpeed := 0, race := startRace 0,
          foilState := spawnFoilState\<lparr>position := V3 0 0 199.99, velocity := V3 0 0 3,
                                     rideHeight := 0.05\<rparr>\<rparr>))))
   \<and> finished (race (animate (1 / 60) 10
       (initialWorld\<lparr>gameState := Riding, paramsWindSpeed := 0, race := startRace 0,
          foilState := spawnFoilState\<lparr>position := V3 0 0 199.99, velocity := V3 0 0 3,
                                     rideHeight := 0.05\<rparr>\<rparr>)))"
proof -
  define w where "w = initialWorld\<lparr>gameState := Riding, paramsWindSpeed := 0, race := startRace 0,
       foilState := spawnFoilState\<lparr>position := V3 0 0 199.99, velocity := V3 0 0 3,
                                  rideHeight := 0.05\<rparr>\<rparr>"
  define dt where "dt = (min (1 / 60) (1 / 30) :: real)"
  define D where "D = dragMagnitude highAspectRace 3 0.05"
  define v where "v = fst (prePump dt 10 w)"
  define u where "u = pumpStep 10 v"
  define p where "p = physicsBody dt 10 w"
  define w' where "w' = updatePhysics (1 / 60) 10 w"
  have dt: "dt = 1 / 60" by (simp add: dt_def)
  have riding: "gameState w = Riding" and foil: "activeFoil w = highAspectRace"
    and vel: "velocity (foilState w) = V3 0 0 3" and calm: "paramsWindSpeed w = 0"
    and hd0: "heading (foilState w) = 0" and z0: "vz (position (foilState w)) = 199.99"
    and h0: "rideHeight (foilState w) = 0.05" and hv0: "rideHeightVel (foilState w) = 0"
    and pt0: "pitch (foilState w) = 0" and r: "race w = startRace 0"
    and level: "roll (foilState w) = 0" "rollRate (foilState w) = 0"
    and keys: "\<not> left (input w)" "\<not> right (input w)" "\<not> up (input w)" "\<not> down (input w)"
      "\<not> pump (input w)"
    by (simp_all add: w_def initialWorld_def spawnFoilState_def V3_def)
  have spd: "vlength (velocity (foilState w)) = 3"
    by (simp add: vel vlength_z)
  have lift: "liftMagnitude highAspectRace 3 = 0"
    by (rule liftMagnitude_below_stall) (simp_all add: highAspectRace_def)
  have D: "D = 7011 / 160"
    by (simp add: D_def dragMagnitude_def liftCoeff_def smoothstep_def Let_def highAspectRace_def
        RHO_WATER_def MAST_DRAG_AREA_def)
  have force: "snd (snd (snd (prePump dt 10 w))) = V3 0 0 (- D)"
    by (simp add: prePump_force vel vlength_z calm foil h0 sampleWave_calm_gradient
        netForce_straight D_def)
  have quiet: "foilState u = foilState v"
    unfolding u_def v_def by (rule pumpStep_not_fired) (simp add: pumpFires_iff keys)
  have uvel: "velocity (foilState u) = V3 0 0 3"
    by (simp add: quiet v_def prePump_foil vel)
  have uhd: "heading (foilState u) = 0"
    by (simp add: quiet v_def prePump_heading_level calm level keys hd0)
  have uz: "vz (position (foilState u)) = 199.99"
    by (simp add: quiet v_def prePump_foil z0)
  have body: "p = postPump dt 3 0 (V3 0 0 (- D)) u"
    by (simp add: p_def physicsBody_def Let_def force prePump_locals vel vlength_z foil lift
        u_def v_def)
  have pz: "vz (position (foilState p)) = 199.99 + (3 + (- D) / RIDER_MASS * dt) * dt"
    unfolding body by (simp only: postPump_straight(2) [OF uvel uhd] uz)
  have far: "200 \<le> vz (position (foilState p))"
    by (simp add: pz D dt RIDER_MASS_def)
  have low: "rideHeight (foilState p) < 0.05"
    by (simp add: p_def physicsBody_rideHeight rideHeightStep_def Let_def vel vlength_z foil lift
        u_def [symmetric] v_def [symmetric] quiet)
      (simp add: v_def prePump_foil prePump_pitch targetPitchOf_def keys h0 hv0 pt0 dt clamp_def
        MAST_LENGTH_def HEIGHT_SPRING_def HEIGHT_DAMPING_def)
  have w': "w' = crashCheck highAspectRace p"
    by (simp add: w'_def p_def dt_def updatePhysics_riding riding foil)
  have "speed (foilState p) = vlength (V3 0 0 (3 + (- D) / RIDER_MASS * dt))"
    unfolding body by (simp only: postPump_foil postPump_straight(1) [OF uvel uhd])
  then have slow: "speed (foilState p) < stallSpeed highAspectRace"
    by (simp add: vlength_z D dt RIDER_MASS_def highAspectRace_def)
  have crashed: "gameState w' = Crashed"
    using low slow by (simp add: w' crashCheck_crash)
  have race': "race w' = startRace 0"
    by (simp add: w'_def updatePhysics_race r)
  then have act: "active (race w')" and unf: "\<not> finished (race w')"
    by (simp_all add: startRace_def)
  have "vz (position (foilState w')) = vz (position (foilState p))"
    by (simp add: w' crashCheck_foil)
  with far have dist: "of_int RACE_LENGTH_KM * 1000 \<le> downwindDist (foilState w')"
    by (simp add: downwindDist_def RACE_START_Z_def SPAWN_POINT_def V3_def RACE_LENGTH_KM_def)
  have fin: "finished (race (updateRace (1 / 60) 10 w'))"
    using updateRaceFor_active(4) [OF act, of RACE_LENGTH_KM "1 / 60" 10] dist
    by (simp add: updateRace_def)
  have "gameState w = Riding \<and> gameState w' = Crashed \<and> active (race w') \<and> \<not> finished (race w')
    \<and> finished (race (updateRace (1 / 60) 10 w'))
    \<and> finished (race (animate (1 / 60) 10 w))"
    using riding crashed act unf fin by (simp add: animate_def w'_def)
  then show ?thesis
    unfolding w'_def w_def .
qed

end
